theory Spec2Isabelle
  imports Main "HOL-Library.Word" "HOL-Library.Sublist"
begin

unbundle bit_operations_syntax

section \<open>JavaScript values shared by the printer backends\<close>

text \<open>
  A \<open>Buffer\<close> is a list of bytes, a JavaScript string a \<open>string\<close>. An exception
  value keeps its constructor and its message: \<open>Error\<close> is what the source raises with
  \<open>new Error(...)\<close>, \<open>TypeError\<close> what the runtime raises on a property read of
  \<open>null\<close> or \<open>undefined\<close>, \<open>LibError\<close> what a library (net, usb, fs) reports,
  kept by its error code.
\<close>

type_synonym byte = "8 word"

datatype js_error = Error string | TypeError string | LibError string

datatype js_value = Buffer "byte list" | Str string

text \<open>
  A promise settles once: \<open>resolve\<close> and \<open>reject\<close> on a settled promise change nothing.
\<close>

datatype 'a promise = Pending | Resolved 'a | Rejected js_error

definition resolve :: "'a \<Rightarrow> 'a promise \<Rightarrow> 'a promise" where
  "resolve v p = (case p of Pending \<Rightarrow> Resolved v | Resolved w \<Rightarrow> Resolved w | Rejected e \<Rightarrow> Rejected e)"

definition reject :: "js_error \<Rightarrow> 'a promise \<Rightarrow> 'a promise" where
  "reject e p = (case p of Pending \<Rightarrow> Rejected e | Resolved w \<Rightarrow> Resolved w | Rejected x \<Rightarrow> Rejected x)"

text \<open>
  \<open>buf.toString('ascii')\<close>: every byte loses its highest bit and becomes one character.
\<close>

definition toString_ascii :: "byte list \<Rightarrow> string" where
  "toString_ascii bs = map (\<lambda>b. char_of (unat (b AND 0x7F))) bs"

section \<open>TCPPrinter\<close>

text \<open>
  \<open>TCPPrinter.print\<close> creates a socket, registers four listeners and arms one timer;
  everything else happens when the runtime calls them. The model runs the listeners of
  the source over the sequence of events the runtime delivers. The socket keeps its
  \<open>destroyed\<close> flag and what was written to it; the run keeps the promise and the
  duration of the timer that \<open>setTimeout\<close> armed.
\<close>

record socket =
  destroyed :: bool
  written :: "string list"

record tcp_run =
  client :: socket
  promise :: "js_value promise"
  timer_ms :: nat

datatype tcp_event =
    Connected
  | DataReceived "byte list"
  | Closed
  | Errored js_error
  | TimerFired

definition socket_destroy :: "socket \<Rightarrow> socket" where
  "socket_destroy c = c\<lparr>destroyed := True\<rparr>"

definition socket_write :: "string \<Rightarrow> socket \<Rightarrow> socket" where
  "socket_write d c = c\<lparr>written := written c @ [d]\<rparr>"

text \<open>
  The part of \<open>net.Socket\<close> the listeners rely on (Node.js, not code of the repository):
  the socket emits \<open>close\<close> once it is fully closed, and it raises an error through
  \<open>destroy(err)\<close>, so \<open>destroyed\<close> is already set when the \<open>close\<close> and
  \<open>error\<close> listeners run. The other events leave the socket as it is.
\<close>

definition socket_emit :: "tcp_event \<Rightarrow> socket \<Rightarrow> socket" where
  "socket_emit ev c =
     (case ev of
        Closed \<Rightarrow> c\<lparr>destroyed := True\<rparr>
      | Errored e \<Rightarrow> c\<lparr>destroyed := True\<rparr>
      | Connected \<Rightarrow> c
      | DataReceived r \<Rightarrow> c
      | TimerFired \<Rightarrow> c)"

subsection \<open>The variant with the 5000 ms timer\<close>

definition tcp_on_connect :: "string \<Rightarrow> tcp_run \<Rightarrow> tcp_run" where
  "tcp_on_connect d st = st\<lparr>client := socket_write d (client st)\<rparr>"

definition tcp_on_data :: "byte list \<Rightarrow> tcp_run \<Rightarrow> tcp_run" where
  "tcp_on_data response st =
     st\<lparr>client := socket_destroy (client st),
        promise := resolve (Buffer response) (promise st)\<rparr>"

definition tcp_on_close :: "tcp_run \<Rightarrow> tcp_run" where
  "tcp_on_close st = st\<lparr>promise := resolve (Str ''Print job sent successfully'') (promise st)\<rparr>"

definition tcp_on_error :: "js_error \<Rightarrow> tcp_run \<Rightarrow> tcp_run" where
  "tcp_on_error err st = st\<lparr>promise := reject err (promise st)\<rparr>"

definition tcp_on_timeout :: "tcp_run \<Rightarrow> tcp_run" where
  "tcp_on_timeout st =
     (if \<not> destroyed (client st)
      then st\<lparr>client := socket_destroy (client st),
              promise := resolve (Str ''Print job sent (timeout)'') (promise st)\<rparr>
      else st)"

definition tcp_step :: "string \<Rightarrow> tcp_run \<Rightarrow> tcp_event \<Rightarrow> tcp_run" where
  "tcp_step d st ev =
     (let st' = st\<lparr>client := socket_emit ev (client st)\<rparr> in
      case ev of
        Connected \<Rightarrow> tcp_on_connect d st'
      | DataReceived r \<Rightarrow> tcp_on_data r st'
      | Closed \<Rightarrow> tcp_on_close st'
      | Errored e \<Rightarrow> tcp_on_error e st'
      | TimerFired \<Rightarrow> tcp_on_timeout st')"

definition tcp_start :: tcp_run where
  "tcp_start = \<lparr>client = \<lparr>destroyed = False, written = []\<rparr>, promise = Pending, timer_ms = 5000\<rparr>"

definition TCPPrinter_print :: "string \<Rightarrow> tcp_event list \<Rightarrow> tcp_run" where
  "TCPPrinter_print d evs = foldl (tcp_step d) tcp_start evs"

subsection \<open>The variant with the 100 ms timer\<close>

text \<open>
  The second \<open>TCPPrinter\<close> of the sources has the same listeners, except that the
  \<open>data\<close> listener resolves with \<open>response.toString('ascii')\<close> and the timer is armed
  with 100 ms.
\<close>

definition tcp2_on_data :: "byte list \<Rightarrow> tcp_run \<Rightarrow> tcp_run" where
  "tcp2_on_data response st =
     st\<lparr>client := socket_destroy (client st),
        promise := resolve (Str (toString_ascii response)) (promise st)\<rparr>"

definition tcp2_step :: "string \<Rightarrow> tcp_run \<Rightarrow> tcp_event \<Rightarrow> tcp_run" where
  "tcp2_step d st ev =
     (let st' = st\<lparr>client := socket_emit ev (client st)\<rparr> in
      case ev of
        Connected \<Rightarrow> tcp_on_connect d st'
      | DataReceived r \<Rightarrow> tcp2_on_data r st'
      | Closed \<Rightarrow> tcp_on_close st'
      | Errored e \<Rightarrow> tcp_on_error e st'
      | TimerFired \<Rightarrow> tcp_on_timeout st')"

definition tcp2_start :: tcp_run where
  "tcp2_start = \<lparr>client = \<lparr>destroyed = False, written = []\<rparr>, promise = Pending, timer_ms = 100\<rparr>"

definition TCPPrinter2_print :: "string \<Rightarrow> tcp_event list \<Rightarrow> tcp_run" where
  "TCPPrinter2_print d evs = foldl (tcp2_step d) tcp2_start evs"

text \<open>
  What the 100 ms variant shows of a run of the 5000 ms variant: a response as the
  string of its bytes, and its own timer.
\<close>

definition ascii_value :: "js_value \<Rightarrow> js_value" where
  "ascii_value v = (case v of Buffer bs \<Rightarrow> Str (toString_ascii bs) | Str s \<Rightarrow> Str s)"

definition ascii_promise :: "js_value promise \<Rightarrow> js_value promise" where
  "ascii_promise p =
     (case p of Pending \<Rightarrow> Pending | Resolved v \<Rightarrow> Resolved (ascii_value v) | Rejected e \<Rightarrow> Rejected e)"

definition ascii_run :: "tcp_run \<Rightarrow> tcp_run" where
  "ascii_run st = st\<lparr>promise := ascii_promise (promise st), timer_ms := 100\<rparr>"

section \<open>USBPrinter\<close>

text \<open>
  The \<open>usb\<close> library is not code of the repository. A device is what the library
  enumerates: its descriptor, whether a kernel driver holds its first interface, the
  endpoints of that interface, and which of the library's calls throw on it. An endpoint
  carries what its bulk transfer reports to the callback (\<open>None\<close>: no error).
\<close>

datatype usb_call =
    CallOpen
  | CallInterface
  | CallIsKernelDriverActive
  | CallDetachKernelDriver
  | CallClaim
  | CallTransfer
  | CallClose

record usb_endpoint =
  direction :: string
  transfer_error :: "js_error option"

record usb_device =
  idVendor :: nat
  idProduct :: nat
  kernelDriverActive :: bool
  endpoints :: "usb_endpoint list"
  throws :: "(usb_call \<times> js_error) list"

record USBPrinter =
  vendorId :: nat
  productId :: "nat option"
  device :: "usb_device option"
  endpoint :: "usb_endpoint option"

text \<open>
  \<open>constructor(vendorId = 0x0a5f, productId = null)\<close>: a missing vendor identifier is
  Zebra's, a missing product identifier is \<open>null\<close>.
\<close>

definition new_USBPrinter :: "nat option \<Rightarrow> nat option \<Rightarrow> USBPrinter" where
  "new_USBPrinter v p =
     \<lparr>vendorId = (case v of None \<Rightarrow> 0x0a5f | Some x \<Rightarrow> x),
      productId = p, device = None, endpoint = None\<rparr>"

text \<open>
  \<open>usb.findByIds(vid, pid)\<close>: the first enumerated device with both identifiers, or
  \<open>undefined\<close>.
\<close>

definition findByIds :: "nat \<Rightarrow> nat \<Rightarrow> usb_device list \<Rightarrow> usb_device option" where
  "findByIds vid pid devices = List.find (\<lambda>d. idVendor d = vid \<and> idProduct d = pid) devices"

text \<open>
  \<open>findPrinter\<close>. \<open>if (this.productId)\<close> holds for a product identifier that is
  neither \<open>null\<close> nor 0; the result of \<open>findByIds\<close> is stored in \<open>this.device\<close>
  whether or not a device was found. When the branch does not return, control reaches the
  loop over the enumerated devices, which takes the first one of the vendor.
\<close>

definition USBPrinter_findPrinter :: "usb_device list \<Rightarrow> USBPrinter \<Rightarrow> bool \<times> USBPrinter" where
  "USBPrinter_findPrinter devices p =
     (let p1 = (case productId p of
                  None \<Rightarrow> p
                | Some pid \<Rightarrow>
                    if pid = 0 then p else p\<lparr>device := findByIds (vendorId p) pid devices\<rparr>);
          exact = (case productId p of
                     None \<Rightarrow> False
                   | Some pid \<Rightarrow> pid \<noteq> 0 \<and> device p1 \<noteq> None)
      in if exact then (True, p1)
         else (case List.find (\<lambda>d. idVendor d = vendorId p) devices of
                 Some d \<Rightarrow> (True, p1\<lparr>device := Some d\<rparr>)
               | None \<Rightarrow> (False, p1)))"

text \<open>
  The library calls of \<open>initializeDevice\<close> run in order until one throws; the result is
  the exception, if any, and the calls made (the throwing one included).
\<close>

fun usb_calls :: "usb_device \<Rightarrow> usb_call list \<Rightarrow> js_error option \<times> usb_call list" where
  "usb_calls d [] = (None, [])"
| "usb_calls d (c # cs) =
     (case map_of (throws d) c of
        Some e \<Rightarrow> (Some e, [c])
      | None \<Rightarrow> (case usb_calls d cs of (r, made) \<Rightarrow> (r, c # made)))"

text \<open>
  \<open>initializeDevice\<close> is an \<open>async\<close> function without an \<open>await\<close>: its body runs
  at the call, and an exception in it becomes the rejection of the promise it returns
  (the first component; \<open>None\<close> when the body completes). The other components are the
  printer afterwards and the calls made on the device.
\<close>

definition USBPrinter_initializeDevice ::
  "USBPrinter \<Rightarrow> js_error option \<times> USBPrinter \<times> usb_call list" where
  "USBPrinter_initializeDevice p =
     (case device p of
        None \<Rightarrow> (Some (Error ''No USB printer device found''), p, [])
      | Some d \<Rightarrow>
          (case usb_calls d ([CallOpen, CallInterface, CallIsKernelDriverActive]
                             @ (if kernelDriverActive d then [CallDetachKernelDriver] else [])
                             @ [CallClaim]) of
             (Some e, made) \<Rightarrow> (Some e, p, made)
           | (None, made) \<Rightarrow>
               (let p' = p\<lparr>endpoint := List.find (\<lambda>ep. direction ep = ''out'') (endpoints d)\<rparr>
                in if endpoint p' = None
                   then (Some (Error ''No OUT endpoint found on USB device''), p', made)
                   else (None, p', made))))"

text \<open>
  The callback of \<open>endpoint.transfer\<close>: it settles the promise of \<open>print\<close> and then
  closes the device, ignoring an exception of \<open>close\<close>.
\<close>

definition transfer_callback :: "js_error option \<Rightarrow> string promise \<times> usb_call list" where
  "transfer_callback error =
     ((case error of
         Some e \<Rightarrow> reject e Pending
       | None \<Rightarrow> resolve ''Print job sent successfully via USB'' Pending),
      [CallClose])"

text \<open>
  \<open>print\<close>. The call of \<open>initializeDevice\<close> is not awaited, so its rejection is
  dropped and \<open>print\<close> goes on to \<open>this.endpoint.transfer\<close>; when no endpoint was
  stored this read throws a \<open>TypeError\<close>, which the \<open>catch\<close> turns into the rejection
  (the model does not keep the runtime's wording of that message). The payload is handed
  to the transfer unchanged, and the transfer reports through its callback. The result is
  the promise, the printer afterwards and the calls made on the device.
\<close>

definition USBPrinter_print ::
  "usb_device list \<Rightarrow> string \<Rightarrow> USBPrinter \<Rightarrow> string promise \<times> USBPrinter \<times> usb_call list" where
  "USBPrinter_print devices d p =
     (case USBPrinter_findPrinter devices p of
        (False, p1) \<Rightarrow> (Rejected (Error ''Zebra printer not found via USB''), p1, [])
      | (True, p1) \<Rightarrow>
          (case USBPrinter_initializeDevice p1 of
             (init, p2, made) \<Rightarrow>
               (case endpoint p2 of
                  None \<Rightarrow> (Rejected (TypeError ''Cannot read properties (reading transfer)''), p2, made)
                | Some ep \<Rightarrow>
                    (case transfer_callback (transfer_error ep) of
                       (out, closing) \<Rightarrow> (out, p2, made @ [CallTransfer] @ closing)))))"

section \<open>Paths\<close>

text \<open>
  Node's POSIX \<open>path\<close> module is not code of the repository. A path is split at its
  slashes; \<open>normalizeString\<close> walks the segments as Node's function of that name walks
  the characters: an empty segment and \<open>.\<close> are skipped, \<open>..\<close> removes the last
  segment kept so far unless there is none or it is itself \<open>..\<close>, in which case it is
  kept when the path is relative and dropped when it is absolute.
\<close>

fun split_path :: "string \<Rightarrow> string list" where
  "split_path [] = [[]]"
| "split_path (c # cs) =
     (if c = CHR ''/'' then [] # split_path cs
      else (case split_path cs of [] \<Rightarrow> [[c]] | s # ss \<Rightarrow> (c # s) # ss))"

fun join_segments :: "string list \<Rightarrow> string" where
  "join_segments [] = []"
| "join_segments [s] = s"
| "join_segments (s # t # ss) = s @ ''/'' @ join_segments (t # ss)"

fun normalizeString :: "bool \<Rightarrow> string list \<Rightarrow> string list \<Rightarrow> string list" where
  "normalizeString allowAboveRoot res [] = res"
| "normalizeString allowAboveRoot res (s # ss) =
     (if s = [] \<or> s = ''.'' then normalizeString allowAboveRoot res ss
      else if s = ''..'' then
        (if res \<noteq> [] \<and> last res \<noteq> ''..'' then normalizeString allowAboveRoot (butlast res) ss
         else if allowAboveRoot then normalizeString allowAboveRoot (res @ [''..'']) ss
         else normalizeString allowAboveRoot res ss)
      else normalizeString allowAboveRoot (res @ [s]) ss)"

definition isAbsolute :: "string \<Rightarrow> bool" where
  "isAbsolute p = (case p of [] \<Rightarrow> False | c # cs \<Rightarrow> c = CHR ''/'')"

definition path_normalize :: "string \<Rightarrow> string" where
  "path_normalize p =
     (if p = [] then ''.''
      else (let trailingSeparator = (last p = CHR ''/'');
                q = join_segments (normalizeString (\<not> isAbsolute p) [] (split_path p))
            in if q = []
               then (if isAbsolute p then ''/'' else if trailingSeparator then ''./'' else ''.'')
               else (if isAbsolute p then ''/'' else []) @ q
                    @ (if trailingSeparator then ''/'' else [])))"

text \<open>\<open>path.join(a, b)\<close>: the non-empty arguments joined by a slash, normalized.\<close>

definition path_join :: "string \<Rightarrow> string \<Rightarrow> string" where
  "path_join a b =
     (let joined = (if a = [] then b else if b = [] then a else a @ ''/'' @ b)
      in if joined = [] then ''.'' else path_normalize joined)"

text \<open>
  \<open>path.resolve(p)\<close> in a process whose working directory is \<open>cwd\<close>: \<open>p\<close> itself
  when it is absolute, \<open>p\<close> below \<open>cwd\<close> otherwise, normalized, without a trailing
  slash.
\<close>

definition path_resolve :: "string \<Rightarrow> string \<Rightarrow> string" where
  "path_resolve cwd p =
     (let r1 = (if p = [] then [] else p @ ''/'');
          r2 = (if isAbsolute p \<or> cwd = [] then r1 else cwd @ ''/'' @ r1);
          resolvedAbsolute = (isAbsolute p \<or> isAbsolute cwd);
          q = join_segments (normalizeString (\<not> resolvedAbsolute) [] (split_path r2))
      in if resolvedAbsolute then ''/'' @ q else if q \<noteq> [] then q else ''.'')"

text \<open>
  The segments of \<open>path.resolve(p)\<close> when the working directory is absolute.
\<close>

definition resolved_segments :: "string \<Rightarrow> string \<Rightarrow> string list" where
  "resolved_segments cwd p =
     normalizeString False [] ((if isAbsolute p then [] else split_path cwd) @ split_path p)"

text \<open>
  \<open>path.extname\<close>: the last non-empty segment from its last dot on; empty when there is
  no dot, when the only dot starts the segment, and for \<open>..\<close>.
\<close>

definition path_segments :: "string \<Rightarrow> string list" where
  "path_segments p = filter (\<lambda>s. s \<noteq> []) (split_path p)"

definition path_extname :: "string \<Rightarrow> string" where
  "path_extname p =
     (let base = (case rev (path_segments p) of [] \<Rightarrow> [] | b # bs \<Rightarrow> b);
          ext = CHR ''.'' # rev (takeWhile (\<lambda>c. c \<noteq> CHR ''.'') (rev base))
      in if length base = length ext \<or> base = ''..'' \<or> CHR ''.'' \<notin> set base then [] else ext)"

text \<open>
  A path lies inside a directory when the segments of the resolved directory are a
  prefix of the segments of the resolved path. This is the containment the path guard
  of the server is meant to decide; the guard itself compares the two strings.
\<close>

definition path_inside :: "string \<Rightarrow> string \<Rightarrow> string \<Rightarrow> bool" where
  "path_inside cwd dir p =
     prefix (path_segments (path_resolve cwd dir)) (path_segments (path_resolve cwd p))"

section \<open>The file system\<close>

text \<open>
  The file system (Node's \<open>fs\<close>, not code of the repository) maps a resolved absolute
  path to what is there: a file with its contents or a directory; the root always
  exists. A file holds the bytes written, or the text written as a string. There are no
  symbolic links. A relative path is resolved against the working directory. The
  operations fail as POSIX has them fail on this store.
\<close>

datatype file_content = Bytes "byte list" | Text string

datatype fs_node = File file_content | Directory

type_synonym filesystem = "string \<Rightarrow> fs_node option"

definition fs_at :: "filesystem \<Rightarrow> string \<Rightarrow> fs_node option" where
  "fs_at fs target = (if target = ''/'' then Some Directory else fs target)"

definition existsSync :: "filesystem \<Rightarrow> string \<Rightarrow> string \<Rightarrow> bool" where
  "existsSync fs cwd p = (fs_at fs (path_resolve cwd p) \<noteq> None)"

text \<open>
  \<open>mkdirSync(p, {recursive: true})\<close> creates the missing directories from the root
  down; a file in the way stops it. The result is the exception, if any, and the store
  with the directories created so far.
\<close>

fun mkdir_segments :: "string list \<Rightarrow> string list \<Rightarrow> filesystem \<Rightarrow> js_error option \<times> filesystem" where
  "mkdir_segments pre [] fs = (None, fs)"
| "mkdir_segments pre (s # ss) fs =
     (let d = ''/'' @ join_segments (pre @ [s]) in
      case fs d of
        Some (File c) \<Rightarrow> (Some (LibError (if ss = [] then ''EEXIST'' else ''ENOTDIR'')), fs)
      | Some Directory \<Rightarrow> mkdir_segments (pre @ [s]) ss fs
      | None \<Rightarrow> mkdir_segments (pre @ [s]) ss (fs(d \<mapsto> Directory)))"

definition mkdirSync_recursive :: "filesystem \<Rightarrow> string \<Rightarrow> string \<Rightarrow> js_error option \<times> filesystem" where
  "mkdirSync_recursive fs cwd p = mkdir_segments [] (path_segments (path_resolve cwd p)) fs"

definition writeFileSync :: "filesystem \<Rightarrow> string \<Rightarrow> string \<Rightarrow> file_content \<Rightarrow> js_error + filesystem" where
  "writeFileSync fs cwd p c =
     (let target = path_resolve cwd p;
          parent = ''/'' @ join_segments (butlast (path_segments target))
      in if fs_at fs target = Some Directory then Inl (LibError ''EISDIR'')
         else (case fs_at fs parent of
                 None \<Rightarrow> Inl (LibError ''ENOENT'')
               | Some (File x) \<Rightarrow> Inl (LibError ''ENOTDIR'')
               | Some Directory \<Rightarrow> Inr (fs(target \<mapsto> File c))))"

definition unlinkSync :: "filesystem \<Rightarrow> string \<Rightarrow> string \<Rightarrow> js_error + filesystem" where
  "unlinkSync fs cwd p =
     (let target = path_resolve cwd p in
      case fs_at fs target of
        Some (File c) \<Rightarrow> Inr (fs(target := None))
      | Some Directory \<Rightarrow> Inl (LibError ''EISDIR'')
      | None \<Rightarrow> Inl (LibError ''ENOENT''))"

definition error_message :: "js_error \<Rightarrow> string" where
  "error_message e = (case e of Error m \<Rightarrow> m | TypeError m \<Rightarrow> m | LibError m \<Rightarrow> m)"

section \<open>JavaScript built-ins used by VirtualPrinter and the factory\<close>

text \<open>
  \<open>String.prototype.toLowerCase\<close> on the ASCII letters (the type names the factory
  compares with have no others).
\<close>

definition toLowerCase_char :: "char \<Rightarrow> char" where
  "toLowerCase_char c =
     (let n = (of_char c :: nat) in if 65 \<le> n \<and> n \<le> 90 then char_of (n + 32) else c)"

definition toLowerCase :: "string \<Rightarrow> string" where
  "toLowerCase s = map toLowerCase_char s"

text \<open>A number in a template string: its decimal digits.\<close>

fun string_of_nat :: "nat \<Rightarrow> string" where
  "string_of_nat n =
     (if n < 10 then [char_of (48 + n)]
      else string_of_nat (n div 10) @ [char_of (48 + n mod 10)])"

declare string_of_nat.simps [simp del]

text \<open>
  \<open>new Date().toISOString()\<close> is an input of the model: the string the clock gives,
  of the shape \<open>YYYY-MM-DDTHH:mm:ss.sssZ\<close>.
\<close>

definition is_digit :: "char \<Rightarrow> bool" where
  "is_digit c = (let n = (of_char c :: nat) in 48 \<le> n \<and> n \<le> 57)"

definition iso_char :: "char \<Rightarrow> char \<Rightarrow> bool" where
  "iso_char shape c = (if shape = CHR ''d'' then is_digit c else c = shape)"

definition iso8601 :: "string \<Rightarrow> bool" where
  "iso8601 s = list_all2 iso_char ''dddd-dd-ddTdd:dd:dd.dddZ'' s"

section \<open>VirtualPrinter\<close>

text \<open>
  The options of the constructor: a field that is missing is \<open>None\<close>. With
  \<open>options.x || default\<close> a missing or empty field takes the default.
\<close>

record virtual_options =
  opt_baseUrl :: "string option"
  opt_dpmm :: "string option"
  opt_labelWidth :: "string option"
  opt_labelHeight :: "string option"
  opt_labelIndex :: "string option"
  opt_outputFormat :: "string option"
  opt_saveDirectory :: "string option"

record VirtualPrinter =
  baseUrl :: string
  dpmm :: string
  labelWidth :: string
  labelHeight :: string
  labelIndex :: string
  outputFormat :: string
  saveDirectory :: string

definition or_default :: "string option \<Rightarrow> string \<Rightarrow> string" where
  "or_default v d = (case v of None \<Rightarrow> d | Some x \<Rightarrow> if x = [] then d else x)"

definition no_options :: virtual_options where
  "no_options =
     \<lparr>opt_baseUrl = None, opt_dpmm = None, opt_labelWidth = None, opt_labelHeight = None,
      opt_labelIndex = None, opt_outputFormat = None, opt_saveDirectory = None\<rparr>"

definition ensureDirectoryExists ::
  "VirtualPrinter \<Rightarrow> string \<Rightarrow> filesystem \<Rightarrow> js_error option \<times> filesystem" where
  "ensureDirectoryExists vp cwd fs =
     (if \<not> existsSync fs cwd (saveDirectory vp)
      then mkdirSync_recursive fs cwd (saveDirectory vp)
      else (None, fs))"

text \<open>
  \<open>constructor(options = {})\<close>: the fields, then \<open>ensureDirectoryExists\<close>; an
  exception of \<open>mkdirSync\<close> leaves the constructor.
\<close>

definition VirtualPrinter_fields :: "virtual_options option \<Rightarrow> VirtualPrinter" where
  "VirtualPrinter_fields options =
     (let opts = (case options of None \<Rightarrow> no_options | Some x \<Rightarrow> x) in
      \<lparr>baseUrl = or_default (opt_baseUrl opts) ''http://api.labelary.com/v1/printers'',
       dpmm = or_default (opt_dpmm opts) ''8dpmm'',
       labelWidth = or_default (opt_labelWidth opts) ''100'',
       labelHeight = or_default (opt_labelHeight opts) ''150'',
       labelIndex = or_default (opt_labelIndex opts) ''0'',
       outputFormat = or_default (opt_outputFormat opts) ''png'',
       saveDirectory = or_default (opt_saveDirectory opts) ''./generated_labels''\<rparr>)"

definition new_VirtualPrinter ::
  "virtual_options option \<Rightarrow> string \<Rightarrow> filesystem \<Rightarrow> (js_error + VirtualPrinter) \<times> filesystem" where
  "new_VirtualPrinter options cwd fs =
     (let vp = VirtualPrinter_fields options in
      case ensureDirectoryExists vp cwd fs of
        (Some e, fs') \<Rightarrow> (Inl e, fs')
      | (None, fs') \<Rightarrow> (Inr vp, fs'))"

text \<open>\<open>generateFilename\<close>, with the clock's string as argument.\<close>

definition generateFilename :: "VirtualPrinter \<Rightarrow> string \<Rightarrow> string" where
  "generateFilename vp now =
     (let timestamp = map (\<lambda>c. if c = CHR '':'' \<or> c = CHR ''.'' then CHR ''-'' else c) now;
          extension = (if outputFormat vp = ''pdf'' then ''pdf''
                       else if outputFormat vp = ''json'' then ''json'' else ''png'')
      in ''label_'' @ timestamp @ ''.'' @ extension)"

text \<open>
  What comes back from the request of \<open>print\<close>: a complete response (status code,
  headers with lower-case names, body), an error of the request, or the 10 s timeout.
  The request itself (the URL with its inch sizes computed in floating point) is not
  part of the model.
\<close>

datatype http_exchange =
    Response nat "(string \<times> string) list" "byte list"
  | RequestError js_error
  | RequestTimeout

record 'n print_result =
  success :: bool
  message :: string
  labelCount :: 'n
  result_outputFormat :: string
  dataSize :: nat
  filename :: string
  filepath :: string
  savedAt :: string

text \<open>
  \<open>print\<close>. Two built-ins of JavaScript are arguments of the model, so that it holds
  for what they really compute: \<open>utf8\<close> is \<open>Buffer.prototype.toString()\<close>, the UTF-8
  decoding of the body, and \<open>parseInt\<close> is the global function of that name, from a
  string to a number (\<open>'n\<close> is the type of JavaScript's numbers). \<open>now\<close> is the
  clock when the file name is made and \<open>later\<close> the clock when the result is built. The
  result is the promise and the file system afterwards.
\<close>

definition VirtualPrinter_print ::
  "(byte list \<Rightarrow> string) \<Rightarrow> (string \<Rightarrow> 'n) \<Rightarrow> VirtualPrinter \<Rightarrow> string \<Rightarrow> filesystem
     \<Rightarrow> http_exchange \<Rightarrow> string \<Rightarrow> string \<Rightarrow> 'n print_result promise \<times> filesystem" where
  "VirtualPrinter_print utf8 parseInt vp cwd fs exchange now later =
     (case exchange of
        Response statusCode headers body \<Rightarrow>
          if statusCode = 200 then
            (let totalCount = or_default (map_of headers ''x-total-count'') ''1'';
                 name = generateFilename vp now;
                 path = path_join (saveDirectory vp) name;
                 content = (if outputFormat vp = ''json'' then Text (utf8 body) else Bytes body)
             in case writeFileSync fs cwd path content of
                  Inl saveError \<Rightarrow>
                    (Rejected (Error (''Failed to save file: '' @ error_message saveError)), fs)
                | Inr fs' \<Rightarrow>
                    (Resolved \<lparr>success = True,
                               message = ''Label processed and saved successfully'',
                               labelCount = parseInt totalCount,
                               result_outputFormat = outputFormat vp,
                               dataSize = length body,
                               filename = name,
                               filepath = path,
                               savedAt = later\<rparr>, fs'))
          else (Rejected (Error (''Labelary API error ('' @ string_of_nat statusCode @ ''): ''
                                 @ utf8 body)), fs)
      | RequestError error \<Rightarrow> (Rejected (Error (''Network error: '' @ error_message error)), fs)
      | RequestTimeout \<Rightarrow> (Rejected (Error ''Request timeout''), fs))"

text \<open>
  \<open>deleteSavedLabel\<close>. The \<open>File not found\<close> error is raised inside the \<open>try\<close>, so
  the \<open>catch\<close> rewraps it like an exception of \<open>unlinkSync\<close>.
\<close>

definition deleteSavedLabel ::
  "VirtualPrinter \<Rightarrow> string \<Rightarrow> filesystem \<Rightarrow> string \<Rightarrow> (js_error + bool) \<times> filesystem" where
  "deleteSavedLabel vp cwd fs name =
     (let path = path_join (saveDirectory vp) name;
          attempt = (if existsSync fs cwd path then unlinkSync fs cwd path
                     else Inl (Error ''File not found''))
      in case attempt of
           Inl error \<Rightarrow> (Inl (Error (''Failed to delete file: '' @ error_message error)), fs)
         | Inr fs' \<Rightarrow> (Inr True, fs'))"

section \<open>PrinterFactory\<close>

text \<open>
  The configuration object: a missing field is \<open>None\<close>; a port that is \<open>NaN\<close> is
  \<open>None\<close> as well. \<open>!host\<close> holds for a missing or empty host, \<open>!port\<close> for a
  missing port and for 0.
\<close>

record printer_config =
  cfg_type :: string
  cfg_host :: "string option"
  cfg_port :: "int option"
  cfg_vendorId :: "nat option"
  cfg_productId :: "nat option"
  cfg_virtual :: "virtual_options option"

record TCPPrinter =
  host :: string
  port :: int

datatype printer = TCP TCPPrinter | USB USBPrinter | Virtual VirtualPrinter

definition createPrinter ::
  "printer_config \<Rightarrow> string \<Rightarrow> filesystem \<Rightarrow> (js_error + printer) \<times> filesystem" where
  "createPrinter config cwd fs =
     (let kind = toLowerCase (cfg_type config) in
      if kind = ''tcp'' then
        (case (cfg_host config, cfg_port config) of
           (Some h, Some n) \<Rightarrow>
             if h = [] \<or> n = 0
             then (Inl (Error ''TCP printer requires host and port configuration''), fs)
             else (Inr (TCP \<lparr>host = h, port = n\<rparr>), fs)
         | _ \<Rightarrow> (Inl (Error ''TCP printer requires host and port configuration''), fs))
      else if kind = ''usb'' then
        (Inr (USB (new_USBPrinter (cfg_vendorId config) (cfg_productId config))), fs)
      else if kind = ''virtual'' then
        (case new_VirtualPrinter (cfg_virtual config) cwd fs of
           (Inl e, fs') \<Rightarrow> (Inl e, fs')
         | (Inr vp, fs') \<Rightarrow> (Inr (Virtual vp), fs'))
      else (Inl (Error (''Unsupported printer type: '' @ cfg_type config
                        @ ''. Supported types: tcp, usb, virtual'')), fs))"

section \<open>The server's handlers for saved labels\<close>

text \<open>
  A response is a JSON body with its status, or the file at a path piped to the client
  with a content type. Beside the response a handler yields the file system calls it
  made, with the paths as resolved.
\<close>

datatype http_response =
    JsonError nat string
  | JsonSuccess string
  | FileStream string string

datatype fs_call = CallExistsSync string | CallCreateReadStream string

definition config_saveDirectory :: "printer_config \<Rightarrow> string option" where
  "config_saveDirectory config =
     (case cfg_virtual config of None \<Rightarrow> None | Some opts \<Rightarrow> opt_saveDirectory opts)"

text \<open>
  \<open>GET /labels/:filename\<close>. A missing save directory makes \<open>path.join\<close> throw, which
  the handler's \<open>catch\<close> answers with status 500. The guard is the source's
  \<open>resolvedPath.startsWith(resolvedSaveDir)\<close>, a comparison of strings.
\<close>

definition get_label :: "printer_config \<Rightarrow> string \<Rightarrow> filesystem \<Rightarrow> string \<Rightarrow> http_response \<times> fs_call list" where
  "get_label config cwd fs name =
     (if cfg_type config \<noteq> ''virtual''
      then (JsonError 400 ''Labels endpoint only available for virtual printers'', [])
      else case config_saveDirectory config of
        None \<Rightarrow> (JsonError 500 ''The path argument must be of type string'', [])
      | Some dir \<Rightarrow>
          (let path = path_join dir name;
               resolvedPath = path_resolve cwd path;
               resolvedSaveDir = path_resolve cwd dir
           in if \<not> prefix resolvedSaveDir resolvedPath
              then (JsonError 403 ''Access denied: Invalid file path'', [])
              else if \<not> existsSync fs cwd path
              then (JsonError 404 ''File not found'', [CallExistsSync resolvedPath])
              else (let ext = toLowerCase (path_extname name);
                        contentType = (if ext = ''.png'' then ''image/png''
                                       else if ext = ''.pdf'' then ''application/pdf''
                                       else if ext = ''.json'' then ''application/json''
                                       else ''application/octet-stream'')
                    in (FileStream contentType resolvedPath,
                        [CallExistsSync resolvedPath, CallCreateReadStream resolvedPath]))))"

text \<open>
  \<open>DELETE /labels/:filename\<close>: a printer from the factory, then \<open>deleteSavedLabel\<close>;
  every exception is answered with status 500 and its message. The result is the
  response and the file system afterwards.
\<close>

definition delete_label :: "printer_config \<Rightarrow> string \<Rightarrow> filesystem \<Rightarrow> string \<Rightarrow> http_response \<times> filesystem" where
  "delete_label config cwd fs name =
     (if cfg_type config \<noteq> ''virtual''
      then (JsonError 400 ''Labels endpoint only available for virtual printers'', fs)
      else case createPrinter config cwd fs of
        (Inl e, fs1) \<Rightarrow> (JsonError 500 (error_message e), fs1)
      | (Inr (Virtual vp), fs1) \<Rightarrow>
          (case deleteSavedLabel vp cwd fs1 name of
             (Inl e, fs2) \<Rightarrow> (JsonError 500 (error_message e), fs2)
           | (Inr ok, fs2) \<Rightarrow> (JsonSuccess (''Label '' @ name @ '' deleted successfully''), fs2))
      | (Inr other, fs1) \<Rightarrow> (JsonError 500 ''printer.deleteSavedLabel is not a function'', fs1))"


section \<open>Properties of TCPPrinter\<close>

lemma tcp_step_settled:
  "promise st \<noteq> Pending \<Longrightarrow> promise (tcp_step d st ev) = promise st"
  by (cases ev; cases "promise st")
     (simp_all add: tcp_step_def Let_def tcp_on_connect_def tcp_on_data_def tcp_on_close_def
        tcp_on_error_def tcp_on_timeout_def resolve_def reject_def)

lemma tcp_run_settled:
  "promise st \<noteq> Pending \<Longrightarrow> promise (foldl (tcp_step d) st evs) = promise st"
  by (induction evs arbitrary: st) (simp_all add: tcp_step_settled)

lemma tcp_step_connected:
  "promise (tcp_step d st Connected) = promise st \<and>
   destroyed (client (tcp_step d st Connected)) = destroyed (client st)"
  by (simp add: tcp_step_def tcp_on_connect_def socket_emit_def socket_write_def)

lemma tcp_run_connected:
  "set pre \<subseteq> {Connected} \<Longrightarrow>
   promise (foldl (tcp_step d) st pre) = promise st \<and>
   destroyed (client (foldl (tcp_step d) st pre)) = destroyed (client st)"
  by (induction pre arbitrary: st) (simp_all add: tcp_step_connected)

lemma tcp_first_event:
  assumes "set pre \<subseteq> {Connected}"
    and "promise (tcp_step d (foldl (tcp_step d) tcp_start pre) ev) = out"
    and "out \<noteq> Pending"
  shows "promise (TCPPrinter_print d (pre @ ev # evs)) = out"
  using assms by (simp add: TCPPrinter_print_def tcp_run_settled)

lemma tcp_after_connects:
  assumes "set pre \<subseteq> {Connected}"
  shows "promise (foldl (tcp_step d) tcp_start pre) = Pending"
    and "\<not> destroyed (client (foldl (tcp_step d) tcp_start pre))"
  using tcp_run_connected [OF assms, of d tcp_start] by (simp_all add: tcp_start_def)

text \<open>
  C3. Whatever the payload, the first event after the connection decides the outcome:
  response data resolves the promise with the bytes received, a close with the generic
  success message, the timer with the message annotated "timeout", and an error rejects
  it with that error. Later events do not change the outcome.
\<close>

theorem TCPPrinter_print_outcome:
  assumes "set pre \<subseteq> {Connected}"
  shows "promise (TCPPrinter_print d (pre @ DataReceived r # evs)) = Resolved (Buffer r)
       \<and> promise (TCPPrinter_print d (pre @ Closed # evs))
           = Resolved (Str ''Print job sent successfully'')
       \<and> promise (TCPPrinter_print d (pre @ TimerFired # evs))
           = Resolved (Str ''Print job sent (timeout)'')
       \<and> promise (TCPPrinter_print d (pre @ Errored e # evs)) = Rejected e"
proof -
  let ?st = "foldl (tcp_step d) tcp_start pre"
  note pend = tcp_after_connects [OF assms, of d]
  have "promise (tcp_step d ?st (DataReceived r)) = Resolved (Buffer r)"
    using pend by (simp add: tcp_step_def tcp_on_data_def resolve_def)
  moreover have "promise (tcp_step d ?st Closed) = Resolved (Str ''Print job sent successfully'')"
    using pend by (simp add: tcp_step_def tcp_on_close_def resolve_def)
  moreover have "promise (tcp_step d ?st TimerFired) = Resolved (Str ''Print job sent (timeout)'')"
    using pend
    by (simp add: tcp_step_def Let_def tcp_on_timeout_def resolve_def socket_emit_def)
  moreover have "promise (tcp_step d ?st (Errored e)) = Rejected e"
    using pend by (simp add: tcp_step_def tcp_on_error_def reject_def)
  ultimately show ?thesis
    using tcp_first_event [OF assms] by simp
qed

theorem TCPPrinter_print_outcome_witness:
  "promise (TCPPrinter_print ''^XA^XZ'' ([Connected] @ DataReceived [0x4F, 0x4B] # [Closed]))
     = Resolved (Buffer [0x4F, 0x4B])
   \<and> promise (TCPPrinter_print ''^XA^XZ'' ([Connected] @ Closed # [Closed]))
     = Resolved (Str ''Print job sent successfully'')
   \<and> promise (TCPPrinter_print ''^XA^XZ'' ([Connected] @ TimerFired # [Closed]))
     = Resolved (Str ''Print job sent (timeout)'')
   \<and> promise (TCPPrinter_print ''^XA^XZ'' ([Connected] @ Errored (LibError ''ECONNRESET'') # [Closed]))
     = Rejected (LibError ''ECONNRESET'')"
proof -
  have h: "set [Connected] \<subseteq> {Connected}" by simp
  show ?thesis
    using TCPPrinter_print_outcome [OF h, of "''^XA^XZ''" "[0x4F, 0x4B]" "[Closed]"
        "LibError ''ECONNRESET''"]
    by simp
qed

text \<open>
  Who destroys the socket: the data and timer listeners themselves; before the close and
  error listeners run, the socket.
\<close>

lemma tcp_listeners_destroy:
  "destroyed (client (tcp_on_data r st))"
  "destroyed (client (tcp_on_timeout st))"
  "destroyed (socket_emit Closed c)"
  "destroyed (socket_emit (Errored e) c)"
  by (simp_all add: tcp_on_data_def tcp_on_timeout_def socket_destroy_def socket_emit_def)

lemma tcp_step_destroyed:
  "promise st \<noteq> Pending \<longrightarrow> destroyed (client st) \<Longrightarrow>
   promise (tcp_step d st ev) \<noteq> Pending \<longrightarrow> destroyed (client (tcp_step d st ev))"
  by (cases ev; cases "promise st")
     (simp_all add: tcp_step_def Let_def tcp_on_connect_def tcp_on_data_def tcp_on_close_def
        tcp_on_error_def tcp_on_timeout_def resolve_def reject_def socket_emit_def
        socket_destroy_def socket_write_def)

lemma tcp_run_destroyed:
  "promise st \<noteq> Pending \<longrightarrow> destroyed (client st) \<Longrightarrow>
   promise (foldl (tcp_step d) st evs) \<noteq> Pending
     \<longrightarrow> destroyed (client (foldl (tcp_step d) st evs))"
proof (induction evs arbitrary: st)
  case Nil
  then show ?case by simp
next
  case (Cons ev evs)
  show ?case
    using Cons.IH [OF tcp_step_destroyed [OF Cons.prems]] by simp
qed

text \<open>
  C8. On every path on which \<open>print\<close> settles its promise (a response, the peer's close,
  the timer, a connection error) the socket is destroyed: by \<open>client.destroy()\<close> in the
  data and timer listeners, by the socket itself before it emits \<open>close\<close> or \<open>error\<close>.
\<close>

theorem TCPPrinter_print_closes_socket:
  "promise (TCPPrinter_print d evs) \<noteq> Pending \<Longrightarrow> destroyed (client (TCPPrinter_print d evs))"
  using tcp_run_destroyed [of tcp_start d evs]
  by (simp add: TCPPrinter_print_def tcp_start_def)

theorem TCPPrinter_print_closes_socket_witness:
  "promise (TCPPrinter_print ''^XA^XZ'' [Connected, DataReceived [0x4F, 0x4B]]) \<noteq> Pending
   \<and> destroyed (client (TCPPrinter_print ''^XA^XZ'' [Connected, DataReceived [0x4F, 0x4B]]))
   \<and> promise (TCPPrinter_print ''^XA^XZ'' [Connected, Closed]) \<noteq> Pending
   \<and> destroyed (client (TCPPrinter_print ''^XA^XZ'' [Connected, Closed]))
   \<and> promise (TCPPrinter_print ''^XA^XZ'' [Connected, TimerFired]) \<noteq> Pending
   \<and> destroyed (client (TCPPrinter_print ''^XA^XZ'' [Connected, TimerFired]))
   \<and> promise (TCPPrinter_print ''^XA^XZ'' [Errored (LibError ''ECONNREFUSED'')]) \<noteq> Pending
   \<and> destroyed (client (TCPPrinter_print ''^XA^XZ'' [Errored (LibError ''ECONNREFUSED'')]))"
proof -
  note run = TCPPrinter_print_def tcp_start_def tcp_step_def Let_def tcp_on_connect_def
    tcp_on_data_def tcp_on_close_def tcp_on_error_def tcp_on_timeout_def socket_emit_def
    socket_write_def socket_destroy_def resolve_def reject_def
  have response: "promise (TCPPrinter_print ''^XA^XZ'' [Connected, DataReceived [0x4F, 0x4B]]) \<noteq> Pending"
    by (simp add: run)
  have closed: "promise (TCPPrinter_print ''^XA^XZ'' [Connected, Closed]) \<noteq> Pending"
    by (simp add: run)
  have timer: "promise (TCPPrinter_print ''^XA^XZ'' [Connected, TimerFired]) \<noteq> Pending"
    by (simp add: run)
  have refused: "promise (TCPPrinter_print ''^XA^XZ'' [Errored (LibError ''ECONNREFUSED'')]) \<noteq> Pending"
    by (simp add: run)
  show ?thesis
    using response closed timer refused
      TCPPrinter_print_closes_socket [OF response] TCPPrinter_print_closes_socket [OF closed]
      TCPPrinter_print_closes_socket [OF timer] TCPPrinter_print_closes_socket [OF refused]
    by simp
qed

lemma tcp2_step_ascii:
  "tcp2_step d (ascii_run st) ev = ascii_run (tcp_step d st ev)"
  by (cases ev; cases "promise st")
     (simp_all add: tcp2_step_def tcp_step_def Let_def ascii_run_def ascii_promise_def
        ascii_value_def tcp_on_connect_def tcp_on_data_def tcp2_on_data_def tcp_on_close_def tcp_on_error_def
        tcp_on_timeout_def resolve_def reject_def)

lemma tcp2_run_ascii:
  "foldl (tcp2_step d) (ascii_run st) evs = ascii_run (foldl (tcp_step d) st evs)"
  by (induction evs arbitrary: st) (simp_all add: tcp2_step_ascii)

text \<open>
  C9, as the code has it. For every payload and every sequence of events, the run of
  the 100 ms variant is the run of the 5000 ms variant with the timer set to 100 ms and
  a response shown as the ASCII string of its bytes: the socket is driven the same way
  and every other outcome is the same.
\<close>

theorem TCPPrinter_variants_agree_up_to_ascii:
  "TCPPrinter2_print d evs = ascii_run (TCPPrinter_print d evs)"
proof -
  have "tcp2_start = ascii_run tcp_start"
    by (simp add: tcp2_start_def tcp_start_def ascii_run_def ascii_promise_def)
  then show ?thesis
    using tcp2_run_ascii [of d tcp_start evs]
    by (simp add: TCPPrinter2_print_def TCPPrinter_print_def)
qed

text \<open>
  The claim as stated fails on a response: for the bytes \<open>4F CB\<close> one variant
  resolves with these two bytes, the other with the string \<open>OK\<close>.
\<close>

theorem TCPPrinter_variants_differ_on_response:
  "promise (TCPPrinter_print ''^XA^XZ'' [Connected, DataReceived [0x4F, 0xCB]])
     = Resolved (Buffer [0x4F, 0xCB])
   \<and> promise (TCPPrinter2_print ''^XA^XZ'' [Connected, DataReceived [0x4F, 0xCB]])
     = Resolved (Str ''OK'')
   \<and> promise (TCPPrinter_print ''^XA^XZ'' [Connected, DataReceived [0x4F, 0xCB]])
     \<noteq> promise (TCPPrinter2_print ''^XA^XZ'' [Connected, DataReceived [0x4F, 0xCB]])"
proof -
  have decoded: "toString_ascii [0x4F, 0xCB] = ''OK''"
    by code_simp
  show ?thesis
    by (simp add: TCPPrinter_print_def TCPPrinter2_print_def tcp_start_def tcp2_start_def
        tcp_step_def tcp2_step_def Let_def tcp_on_connect_def tcp_on_data_def tcp2_on_data_def
        resolve_def decoded)
qed

section \<open>Properties of USBPrinter\<close>

text \<open>
  C1 at the failing input: a printer configured for vendor 0x0a5f and product 1, with the
  only enumerated device of vendor 0x0a5f being product 2. \<open>findByIds\<close> finds nothing,
  \<open>findPrinter\<close> falls through to the loop over the vendor's devices and takes product
  2, and \<open>print\<close> opens that device and sends the payload to it.
\<close>

theorem USBPrinter_print_other_product:
  "USBPrinter_print
     [\<lparr>idVendor = 0x0a5f, idProduct = 2, kernelDriverActive = False,
       endpoints = [\<lparr>direction = ''out'', transfer_error = None\<rparr>], throws = []\<rparr>]
     ''^XA^XZ'' (new_USBPrinter (Some 0x0a5f) (Some 1))
   = (Resolved ''Print job sent successfully via USB'',
      \<lparr>vendorId = 0x0a5f, productId = Some 1,
       device = Some \<lparr>idVendor = 0x0a5f, idProduct = 2, kernelDriverActive = False,
                      endpoints = [\<lparr>direction = ''out'', transfer_error = None\<rparr>], throws = []\<rparr>,
       endpoint = Some \<lparr>direction = ''out'', transfer_error = None\<rparr>\<rparr>,
      [CallOpen, CallInterface, CallIsKernelDriverActive, CallClaim, CallTransfer, CallClose])"
  by (simp add: USBPrinter_print_def USBPrinter_findPrinter_def USBPrinter_initializeDevice_def
      new_USBPrinter_def findByIds_def transfer_callback_def resolve_def Let_def)

text \<open>
  C7. Once a device is found and its first OUT endpoint is stored, the outcome of
  \<open>print\<close> is decided by the transfer callback: an error reported to it rejects the
  promise with that same error, no error resolves it; in both cases the last call made on
  the device is \<open>close\<close>.
\<close>

theorem USBPrinter_print_transfer:
  assumes "USBPrinter_findPrinter devices p = (True, p1)"
    and "USBPrinter_initializeDevice p1 = (init, p2, made)"
    and "endpoint p2 = Some ep"
  shows "(transfer_error ep = Some e \<longrightarrow>
            USBPrinter_print devices d p = (Rejected e, p2, made @ [CallTransfer, CallClose]))
       \<and> (transfer_error ep = None \<longrightarrow>
            USBPrinter_print devices d p
              = (Resolved ''Print job sent successfully via USB'', p2,
                 made @ [CallTransfer, CallClose]))"
  using assms
  by (simp add: USBPrinter_print_def transfer_callback_def resolve_def reject_def)

theorem USBPrinter_print_transfer_witness:
  "USBPrinter_print
     [\<lparr>idVendor = 0x0a5f, idProduct = 2, kernelDriverActive = True,
       endpoints = [\<lparr>direction = ''in'', transfer_error = None\<rparr>,
                    \<lparr>direction = ''out'', transfer_error = Some (LibError ''LIBUSB_TRANSFER_STALL'')\<rparr>],
       throws = [(CallClose, LibError ''LIBUSB_ERROR_NO_DEVICE'')]\<rparr>]
     ''^XA^XZ'' (new_USBPrinter (Some 0x0a5f) None)
   = (Rejected (LibError ''LIBUSB_TRANSFER_STALL''),
      \<lparr>vendorId = 0x0a5f, productId = None,
       device = Some \<lparr>idVendor = 0x0a5f, idProduct = 2, kernelDriverActive = True,
                      endpoints = [\<lparr>direction = ''in'', transfer_error = None\<rparr>,
                                   \<lparr>direction = ''out'',
                                    transfer_error = Some (LibError ''LIBUSB_TRANSFER_STALL'')\<rparr>],
                      throws = [(CallClose, LibError ''LIBUSB_ERROR_NO_DEVICE'')]\<rparr>,
       endpoint = Some \<lparr>direction = ''out'',
                        transfer_error = Some (LibError ''LIBUSB_TRANSFER_STALL'')\<rparr>\<rparr>,
      [CallOpen, CallInterface, CallIsKernelDriverActive, CallDetachKernelDriver, CallClaim]
        @ [CallTransfer, CallClose])
   \<and> USBPrinter_print
     [\<lparr>idVendor = 0x0a5f, idProduct = 2, kernelDriverActive = False,
       endpoints = [\<lparr>direction = ''out'', transfer_error = None\<rparr>], throws = []\<rparr>]
     ''^XA^XZ'' (new_USBPrinter (Some 0x0a5f) None)
   = (Resolved ''Print job sent successfully via USB'',
      \<lparr>vendorId = 0x0a5f, productId = None,
       device = Some \<lparr>idVendor = 0x0a5f, idProduct = 2, kernelDriverActive = False,
                      endpoints = [\<lparr>direction = ''out'', transfer_error = None\<rparr>],
                      throws = []\<rparr>,
       endpoint = Some \<lparr>direction = ''out'', transfer_error = None\<rparr>\<rparr>,
      [CallOpen, CallInterface, CallIsKernelDriverActive, CallClaim] @ [CallTransfer, CallClose])"
proof -
  let ?ok = "\<lparr>direction = ''out'', transfer_error = None\<rparr>"
  let ?dev' = "\<lparr>idVendor = 0x0a5f, idProduct = 2, kernelDriverActive = False,
       endpoints = [?ok], throws = []\<rparr>"
  let ?q1 = "\<lparr>vendorId = 0x0a5f, productId = None, device = Some ?dev', endpoint = None\<rparr>"
  have found': "USBPrinter_findPrinter [?dev'] (new_USBPrinter (Some 0x0a5f) None) = (True, ?q1)"
    by (simp add: USBPrinter_findPrinter_def new_USBPrinter_def)
  have init': "USBPrinter_initializeDevice ?q1
      = (None, ?q1\<lparr>endpoint := Some ?ok\<rparr>,
         [CallOpen, CallInterface, CallIsKernelDriverActive, CallClaim])"
    by (simp add: USBPrinter_initializeDevice_def Let_def)
  have ep': "endpoint (?q1\<lparr>endpoint := Some ?ok\<rparr>) = Some ?ok"
    by simp
  let ?ep = "\<lparr>direction = ''out'', transfer_error = Some (LibError ''LIBUSB_TRANSFER_STALL'')\<rparr>"
  let ?dev = "\<lparr>idVendor = 0x0a5f, idProduct = 2, kernelDriverActive = True,
       endpoints = [\<lparr>direction = ''in'', transfer_error = None\<rparr>, ?ep],
       throws = [(CallClose, LibError ''LIBUSB_ERROR_NO_DEVICE'')]\<rparr>"
  let ?p1 = "\<lparr>vendorId = 0x0a5f, productId = None, device = Some ?dev, endpoint = None\<rparr>"
  have found: "USBPrinter_findPrinter [?dev] (new_USBPrinter (Some 0x0a5f) None) = (True, ?p1)"
    by (simp add: USBPrinter_findPrinter_def new_USBPrinter_def)
  have init: "USBPrinter_initializeDevice ?p1
      = (None, ?p1\<lparr>endpoint := Some ?ep\<rparr>,
         [CallOpen, CallInterface, CallIsKernelDriverActive, CallDetachKernelDriver, CallClaim])"
    by (simp add: USBPrinter_initializeDevice_def Let_def)
  have ep: "endpoint (?p1\<lparr>endpoint := Some ?ep\<rparr>) = Some ?ep"
    by simp
  show ?thesis
    using USBPrinter_print_transfer [OF found init ep, of "LibError ''LIBUSB_TRANSFER_STALL''" "''^XA^XZ''"]
      USBPrinter_print_transfer [OF found' init' ep', of "LibError ''LIBUSB_TRANSFER_STALL''" "''^XA^XZ''"]
    by simp
qed

lemma USBPrinter_findPrinter_none:
  assumes "List.find (\<lambda>d. idVendor d = vendorId p) devices = None"
  shows "fst (USBPrinter_findPrinter devices p) = False"
proof -
  have "findByIds (vendorId p) pid devices = None" for pid
    using assms by (auto simp: findByIds_def find_None_iff)
  then show ?thesis
    using assms by (simp add: USBPrinter_findPrinter_def Let_def split: option.splits)
qed

lemma USBPrinter_print_not_found:
  assumes "List.find (\<lambda>d. idVendor d = vendorId p) devices = None"
  shows "fst (USBPrinter_print devices d p) = Rejected (Error ''Zebra printer not found via USB'')"
    and "snd (snd (USBPrinter_print devices d p)) = []"
  using USBPrinter_findPrinter_none [OF assms]
  by (cases "USBPrinter_findPrinter devices p"; simp add: USBPrinter_print_def)+

section \<open>Properties of paths\<close>

lemma split_path_nonempty: "split_path s \<noteq> []"
  by (induction s) (auto split: list.splits)

lemma split_path_append: "split_path (a @ CHR ''/'' # b) = split_path a @ split_path b"
proof (induction a)
  case Nil
  then show ?case by simp
next
  case (Cons c a)
  then show ?case
    using split_path_nonempty [of a]
    by (cases "split_path a") (auto split: list.splits)
qed

lemma split_path_noslash: "CHR ''/'' \<notin> set s \<Longrightarrow> split_path s = [s]"
  by (induction s) auto

lemma split_path_segments: "x \<in> set (split_path s) \<Longrightarrow> CHR ''/'' \<notin> set x"
proof (induction s arbitrary: x)
  case Nil
  then show ?case by simp
next
  case (Cons c s)
  then show ?case
    using split_path_nonempty [of s]
    by (cases "split_path s") (auto split: if_splits)
qed

lemma normalizeString_append:
  "normalizeString b res (xs @ ys) = normalizeString b (normalizeString b res xs) ys"
  by (induction xs arbitrary: res) auto

lemma split_join:
  "segs \<noteq> [] \<Longrightarrow> \<forall>s\<in>set segs. CHR ''/'' \<notin> set s \<Longrightarrow> split_path (join_segments segs) = segs"
proof (induction segs rule: join_segments.induct)
  case 1
  then show ?case by simp
next
  case (2 s)
  then show ?case by (simp add: split_path_noslash)
next
  case (3 s t ss)
  then show ?case
    using split_path_append [of s "join_segments (t # ss)"]
    by (simp add: split_path_noslash)
qed

lemma normalizeString_members:
  "x \<in> set (normalizeString b res xs) \<Longrightarrow>
   x \<in> set res \<or> (x \<in> set xs \<and> x \<noteq> [] \<and> x \<noteq> ''.'' \<and> (b \<or> x \<noteq> ''..''))"
proof (induction xs arbitrary: res)
  case Nil
  then show ?case by simp
next
  case (Cons s ss)
  consider (skip) "s = [] \<or> s = ''.''"
    | (pop) "s = ''..''" "res \<noteq> [] \<and> last res \<noteq> ''..''"
    | (keep) "s = ''..''" "\<not> (res \<noteq> [] \<and> last res \<noteq> ''..'')" "b"
    | (drop) "s = ''..''" "\<not> (res \<noteq> [] \<and> last res \<noteq> ''..'')" "\<not> b"
    | (push) "s \<noteq> []" "s \<noteq> ''.''" "s \<noteq> ''..''"
    by blast
  then show ?case
  proof cases
    case skip
    then have "x \<in> set (normalizeString b res ss)" using Cons.prems by auto
    from Cons.IH [OF this] show ?thesis by auto
  next
    case pop
    then have "x \<in> set (normalizeString b (butlast res) ss)" using Cons.prems by simp
    from Cons.IH [OF this] show ?thesis by (auto dest: in_set_butlastD)
  next
    case keep
    then have "x \<in> set (normalizeString b (res @ [''..'']) ss)"
      using Cons.prems by (auto split: if_splits)
    from Cons.IH [OF this] show ?thesis using keep by auto
  next
    case drop
    then have "x \<in> set (normalizeString b res ss)"
      using Cons.prems by (auto split: if_splits)
    from Cons.IH [OF this] show ?thesis by auto
  next
    case push
    then have "x \<in> set (normalizeString b (res @ [s]) ss)" using Cons.prems by simp
    from Cons.IH [OF this] show ?thesis using push by auto
  qed
qed

lemma normalizeString_clean:
  "\<forall>s\<in>set xs. s \<noteq> [] \<and> s \<noteq> ''.'' \<and> s \<noteq> ''..'' \<Longrightarrow> normalizeString b res xs = res @ xs"
  by (induction xs arbitrary: res) auto

lemma normalizeString_relative_first:
  "\<forall>s\<in>set acc. s \<noteq> [] \<and> s \<noteq> ''.'' \<Longrightarrow>
   normalizeString False res0 (normalizeString True acc xs)
     = normalizeString False (normalizeString False res0 acc) xs"
proof (induction xs arbitrary: acc)
  case Nil
  then show ?case by simp
next
  case (Cons s ss)
  show ?case
  proof (cases "s = [] \<or> s = ''.''")
    case True
    then show ?thesis using Cons by auto
  next
    case skip: False
    show ?thesis
    proof (cases "s = ''..''")
      case False
      have "\<forall>x\<in>set (acc @ [s]). x \<noteq> [] \<and> x \<noteq> ''.''"
        using Cons.prems skip by auto
      from Cons.IH [OF this] show ?thesis
        using skip False by (simp add: normalizeString_append)
    next
      case dots: True
      show ?thesis
      proof (cases "acc \<noteq> [] \<and> last acc \<noteq> ''..''")
        case True
        then have acc: "acc = butlast acc @ [last acc]" by simp
        have ord: "last acc \<noteq> [] \<and> last acc \<noteq> ''.'' \<and> last acc \<noteq> ''..''"
          using True Cons.prems last_in_set [of acc] by auto
        have pre: "\<forall>x\<in>set (butlast acc). x \<noteq> [] \<and> x \<noteq> ''.''"
          using Cons.prems by (auto dest: in_set_butlastD)
        have "normalizeString False res0 acc
              = normalizeString False (normalizeString False res0 (butlast acc)) [last acc]"
          using normalizeString_append [of False res0 "butlast acc" "[last acc]"] acc by simp
        also have "\<dots> = normalizeString False res0 (butlast acc) @ [last acc]"
          using ord by simp
        finally have "normalizeString False (normalizeString False res0 acc) (s # ss)
              = normalizeString False (normalizeString False res0 (butlast acc)) ss"
          using dots ord by simp
        moreover have "normalizeString True acc (s # ss) = normalizeString True (butlast acc) ss"
          using dots True by simp
        ultimately show ?thesis
          using Cons.IH [OF pre] by simp
      next
        case False
        have "\<forall>x\<in>set (acc @ [''..'']). x \<noteq> [] \<and> x \<noteq> ''.''"
          using Cons.prems by auto
        from Cons.IH [OF this] show ?thesis
          using dots False by (auto simp: normalizeString_append)
      qed
    qed
  qed
qed

lemma join_segments_snoc_nonempty: "name \<noteq> [] \<Longrightarrow> join_segments (segs @ [name]) \<noteq> []"
  by (induction segs rule: join_segments.induct) auto

lemma isAbsolute_append: "s \<noteq> [] \<Longrightarrow> isAbsolute (s @ t) = isAbsolute s"
  by (cases s) (simp_all add: isAbsolute_def)

lemma isAbsolute_noslash: "CHR ''/'' \<notin> set s \<Longrightarrow> \<not> isAbsolute s"
  by (cases s) (auto simp: isAbsolute_def)

lemma join_segments_relative:
  "segs \<noteq> [] \<Longrightarrow> \<forall>s\<in>set segs. s \<noteq> [] \<and> CHR ''/'' \<notin> set s \<Longrightarrow> \<not> isAbsolute (join_segments segs)"
  by (induction segs rule: join_segments.induct)
     (simp_all add: isAbsolute_append isAbsolute_noslash)

lemma path_resolve_segments:
  assumes "isAbsolute cwd"
  shows "path_resolve cwd p = ''/'' @ join_segments (resolved_segments cwd p)"
proof -
  have cwd: "cwd \<noteq> []" using assms by (auto simp: isAbsolute_def)
  have drop: "normalizeString False [] (xs @ [[]]) = normalizeString False [] xs" for xs
    by (simp add: normalizeString_append)
  show ?thesis
  proof (cases "isAbsolute p")
    case True
    then have "p \<noteq> []" by (auto simp: isAbsolute_def)
    then show ?thesis
      using True split_path_append [of p "[]"] drop [of "split_path p"]
      by (simp add: path_resolve_def resolved_segments_def)
  next
    case False
    show ?thesis
    proof (cases "p = []")
      case True
      then show ?thesis
        using False assms cwd split_path_append [of cwd "[]"]
        by (simp add: path_resolve_def resolved_segments_def)
    next
      case nonempty: False
      have "split_path (cwd @ CHR ''/'' # p @ ''/'') = split_path cwd @ split_path p @ [[]]"
        using split_path_append [of cwd "p @ ''/''"] split_path_append [of p "[]"] by simp
      then show ?thesis
        using False assms cwd nonempty drop [of "split_path cwd @ split_path p"]
        by (simp add: path_resolve_def resolved_segments_def)
    qed
  qed
qed

lemma normalizeString_snoc:
  assumes "name \<noteq> []" "name \<noteq> ''.''" "name \<noteq> ''..''"
  shows "normalizeString b res (xs @ [name]) = normalizeString b res xs @ [name]"
  using assms by (simp add: normalizeString_append)

lemma normalized_segments_noslash:
  assumes "x \<in> set (normalizeString b [] (split_path p))"
  shows "x \<noteq> [] \<and> x \<noteq> ''.'' \<and> CHR ''/'' \<notin> set x"
  using normalizeString_members [OF assms] split_path_segments [of x p] by auto

lemma last_noslash: "name \<noteq> [] \<Longrightarrow> CHR ''/'' \<notin> set name \<Longrightarrow> last name \<noteq> CHR ''/''"
  using last_in_set [of name] by metis

lemma path_join_name:
  assumes "name \<noteq> []" "name \<noteq> ''.''" "name \<noteq> ''..''" "CHR ''/'' \<notin> set name"
    and "dir \<noteq> []"
  shows "path_join dir name
         = (if isAbsolute dir then ''/'' else [])
           @ join_segments (normalizeString (\<not> isAbsolute dir) [] (split_path dir) @ [name])"
proof -
  let ?joined = "dir @ ''/'' @ name"
  have last: "last ?joined \<noteq> CHR ''/''"
    using assms(1,4) last_noslash [of name] by simp
  have abs: "isAbsolute ?joined = isAbsolute dir"
    using assms(5) by (simp add: isAbsolute_append)
  have split: "split_path ?joined = split_path dir @ [name]"
    using split_path_append [of dir name] assms(4) by (simp add: split_path_noslash)
  have norm: "normalizeString (\<not> isAbsolute dir) [] (split_path ?joined)
              = normalizeString (\<not> isAbsolute dir) [] (split_path dir) @ [name]"
    unfolding split using assms(1-3) by (rule normalizeString_snoc)
  have nonempty: "join_segments (normalizeString (\<not> isAbsolute dir) [] (split_path dir) @ [name]) \<noteq> []"
    using assms(1) by (rule join_segments_snoc_nonempty)
  show ?thesis
    using assms(1,5) last abs norm nonempty
    by (simp add: path_join_def path_normalize_def Let_def)
qed

lemma resolved_segments_join:
  assumes cwd: "isAbsolute cwd"
    and name: "name \<noteq> []" "name \<noteq> ''.''" "name \<noteq> ''..''" "CHR ''/'' \<notin> set name"
  shows "resolved_segments cwd (path_join dir name) = resolved_segments cwd dir @ [name]"
proof (cases "dir = []")
  case True
  have "path_join dir name = name"
    using True name split_path_noslash [of name] last_noslash [of name] isAbsolute_noslash [of name]
    by (simp add: path_join_def path_normalize_def Let_def)
  moreover have "resolved_segments cwd name = normalizeString False [] (split_path cwd) @ [name]"
    using name isAbsolute_noslash [of name]
    by (simp add: resolved_segments_def split_path_noslash normalizeString_append)
  moreover have "resolved_segments cwd dir = normalizeString False [] (split_path cwd)"
    using True by (simp add: resolved_segments_def isAbsolute_def normalizeString_append)
  ultimately show ?thesis by simp
next
  case nonempty: False
  note join = path_join_name [OF name nonempty]
  show ?thesis
  proof (cases "isAbsolute dir")
    case True
    let ?N = "normalizeString False [] (split_path dir)"
    have clean: "\<forall>s\<in>set (?N @ [name]). CHR ''/'' \<notin> set s"
      using normalized_segments_noslash [of _ False dir] name by auto
    have ord: "\<forall>s\<in>set ?N. s \<noteq> [] \<and> s \<noteq> ''.'' \<and> s \<noteq> ''..''"
      using normalizeString_members [of _ False "[]" "split_path dir"] by auto
    have path: "path_join dir name = ''/'' @ join_segments (?N @ [name])"
      using join True by simp
    have "split_path (''/'' @ join_segments (?N @ [name])) = [] # (?N @ [name])"
      using split_join [OF _ clean] by simp
    then have "resolved_segments cwd (path_join dir name) = normalizeString False [] (?N @ [name])"
      unfolding path by (simp add: resolved_segments_def isAbsolute_def)
    also have "\<dots> = ?N @ [name]"
      using normalizeString_clean [of "?N @ [name]" False "[]"] ord name by auto
    finally show ?thesis
      using True by (simp add: resolved_segments_def)
  next
    case False
    let ?N = "normalizeString True [] (split_path dir)"
    let ?C = "normalizeString False [] (split_path cwd)"
    have clean: "\<forall>s\<in>set (?N @ [name]). s \<noteq> [] \<and> CHR ''/'' \<notin> set s"
      using normalized_segments_noslash [of _ True dir] name by auto
    have path: "path_join dir name = join_segments (?N @ [name])"
      using join False by simp
    have rel: "\<not> isAbsolute (join_segments (?N @ [name]))"
      using join_segments_relative [OF _ clean] by simp
    have "split_path (join_segments (?N @ [name])) = ?N @ [name]"
      using split_join [of "?N @ [name]"] clean by simp
    then have "resolved_segments cwd (path_join dir name)
               = normalizeString False [] (split_path cwd @ ?N @ [name])"
      unfolding path using rel by (simp add: resolved_segments_def)
    also have "\<dots> = normalizeString False ?C ?N @ [name]"
      using name by (simp add: normalizeString_append)
    also have "normalizeString False ?C ?N = normalizeString False ?C (split_path dir)"
      using normalizeString_relative_first [of "[]" ?C "split_path dir"] by simp
    also have "\<dots> = resolved_segments cwd dir"
      using False by (simp add: resolved_segments_def normalizeString_append)
    finally show ?thesis .
  qed
qed

lemma resolved_segments_clean:
  assumes "x \<in> set (resolved_segments cwd p)"
  shows "x \<noteq> [] \<and> CHR ''/'' \<notin> set x"
proof -
  from normalizeString_members [OF assms [unfolded resolved_segments_def]]
  have "x \<noteq> []" and "x \<in> set (split_path cwd) \<or> x \<in> set (split_path p)"
    by (auto split: if_splits)
  then show ?thesis
    using split_path_segments [of x cwd] split_path_segments [of x p] by auto
qed

lemma path_segments_root:
  assumes "\<forall>s\<in>set segs. s \<noteq> [] \<and> CHR ''/'' \<notin> set s"
  shows "path_segments (''/'' @ join_segments segs) = segs"
proof (cases "segs = []")
  case True
  then show ?thesis by (simp add: path_segments_def)
next
  case False
  have "split_path (''/'' @ join_segments segs) = [] # segs"
    using split_join [OF False] assms by simp
  moreover have "filter (\<lambda>s. s \<noteq> []) segs = segs"
    using assms by (simp add: filter_id_conv)
  ultimately show ?thesis by (simp add: path_segments_def)
qed

lemma path_segments_resolve:
  assumes "isAbsolute cwd"
  shows "path_segments (path_resolve cwd p) = resolved_segments cwd p"
  using path_resolve_segments [OF assms, of p] path_segments_root [of "resolved_segments cwd p"]
    resolved_segments_clean [of _ cwd p]
  by simp

lemma not_digit_slash: "\<not> is_digit CHR ''/''"
  by code_simp

lemma iso_shape_noslash:
  "list_all2 iso_char shape s \<Longrightarrow> CHR ''/'' \<notin> set shape \<Longrightarrow> CHR ''/'' \<notin> set s"
proof (induction rule: list_all2_induct)
  case Nil
  then show ?case by simp
next
  case (Cons x xs y ys)
  then show ?case
    using not_digit_slash by (auto simp: iso_char_def split: if_splits)
qed

lemma iso8601_noslash: "iso8601 now \<Longrightarrow> CHR ''/'' \<notin> set now"
  unfolding iso8601_def by (erule iso_shape_noslash) simp

lemma generateFilename_ordinary:
  assumes "iso8601 now"
  shows "generateFilename vp now \<noteq> []" "generateFilename vp now \<noteq> ''.''"
    "generateFilename vp now \<noteq> ''..''" "CHR ''/'' \<notin> set (generateFilename vp now)"
  using iso8601_noslash [OF assms] by (auto simp: generateFilename_def Let_def)

lemma join_target:
  assumes "isAbsolute cwd" and "iso8601 now"
  shows "path_segments (path_resolve cwd (path_join dir (generateFilename vp now)))
         = path_segments (path_resolve cwd dir) @ [generateFilename vp now]"
  using resolved_segments_join [where dir = dir and name = "generateFilename vp now",
      OF assms(1) generateFilename_ordinary [OF assms(2)]]
  by (simp add: path_segments_resolve [OF assms(1)])

lemma join_parent:
  assumes "isAbsolute cwd" and "iso8601 now"
  shows "''/'' @ join_segments (butlast (path_segments
           (path_resolve cwd (path_join dir (generateFilename vp now)))))
         = path_resolve cwd dir"
proof -
  have "butlast (path_segments (path_resolve cwd (path_join dir (generateFilename vp now))))
        = resolved_segments cwd dir"
    using join_target [OF assms, of dir vp] by (simp add: path_segments_resolve [OF assms(1)])
  then show ?thesis
    using path_resolve_segments [OF assms(1), of dir] by simp
qed

section \<open>Properties of the file system\<close>

text \<open>
  After a constructor of \<open>VirtualPrinter\<close> that did not throw, the save directory
  exists.
\<close>

lemma mkdir_segments_creates:
  "fst (mkdir_segments pre segs fs) = None \<Longrightarrow> segs \<noteq> [] \<Longrightarrow>
   snd (mkdir_segments pre segs fs) (''/'' @ join_segments (pre @ segs)) = Some Directory"
proof (induction segs arbitrary: pre fs)
  case Nil
  then show ?case by simp
next
  case (Cons s ss)
  let ?d = "''/'' @ join_segments (pre @ [s])"
  obtain fs1 where step: "mkdir_segments pre (s # ss) fs = mkdir_segments (pre @ [s]) ss fs1"
    and here: "fs1 ?d = Some Directory"
  proof (cases "fs ?d")
    case None
    show ?thesis
      using None by (intro that [of "fs(?d \<mapsto> Directory)"]) (simp_all add: Let_def)
  next
    case (Some node)
    then have "node = Directory"
      using Cons.prems(1) by (cases node) (simp_all add: Let_def)
    then show ?thesis
      using Some by (intro that [of fs]) (simp_all add: Let_def)
  qed
  show ?case
  proof (cases "ss = []")
    case True
    then show ?thesis using step here by simp
  next
    case False
    have "fst (mkdir_segments (pre @ [s]) ss fs1) = None"
      using Cons.prems(1) step by simp
    from Cons.IH [OF this False] show ?thesis
      using step by simp
  qed
qed

lemma ensureDirectoryExists_ensures:
  assumes "isAbsolute cwd"
    and "ensureDirectoryExists vp cwd fs = (None, fs')"
  shows "existsSync fs' cwd (saveDirectory vp)"
proof (cases "existsSync fs cwd (saveDirectory vp)")
  case True
  then show ?thesis using assms(2) by (simp add: ensureDirectoryExists_def)
next
  case False
  let ?segs = "path_segments (path_resolve cwd (saveDirectory vp))"
  have resolved: "path_resolve cwd (saveDirectory vp) = ''/'' @ join_segments ?segs"
    using path_resolve_segments [OF assms(1)] path_segments_resolve [OF assms(1)] by simp
  have made: "mkdir_segments [] ?segs fs = (None, fs')"
    using False assms(2) by (simp add: ensureDirectoryExists_def mkdirSync_recursive_def)
  have "?segs \<noteq> []"
  proof
    assume "?segs = []"
    then have "path_resolve cwd (saveDirectory vp) = ''/''" using resolved by simp
    then show False using False by (simp add: existsSync_def fs_at_def)
  qed
  from mkdir_segments_creates [OF _ this, of "[]" fs] made
  have "fs' (''/'' @ join_segments ?segs) = Some Directory" by simp
  then show ?thesis
    using resolved by (simp add: existsSync_def fs_at_def)
qed

section \<open>Properties of VirtualPrinter\<close>

text \<open>
  C4. A response whose status is not 200 rejects the promise of \<open>print\<close> with an error
  whose message holds the status code and the text of the body, and the file system is
  left as it was: nothing is written.
\<close>

theorem VirtualPrinter_print_error_status:
  "statusCode \<noteq> 200 \<Longrightarrow>
   VirtualPrinter_print utf8 parseInt vp cwd fs (Response statusCode headers body) now later
     = (Rejected (Error (''Labelary API error ('' @ string_of_nat statusCode @ ''): '' @ utf8 body)),
        fs)"
  by (simp add: VirtualPrinter_print_def)

theorem VirtualPrinter_print_error_status_witness:
  "VirtualPrinter_print (map (\<lambda>b. char_of (unat b)))
     (\<lambda>s. if s = ''1'' then Some (1 :: int) else None)
     \<lparr>baseUrl = ''http://api.labelary.com/v1/printers'', dpmm = ''8dpmm'', labelWidth = ''4'',
      labelHeight = ''6'', labelIndex = ''0'', outputFormat = ''png'',
      saveDirectory = ''./generated_labels''\<rparr>
     ''/app'' Map.empty
     (Response 404 [] [0x6E, 0x6F, 0x74, 0x20, 0x66, 0x6F, 0x75, 0x6E, 0x64])
     ''2025-07-24T10:30:00.000Z'' ''2025-07-24T10:30:00.005Z''
   = (Rejected (Error ''Labelary API error (404): not found''), Map.empty)"
proof -
  have status: "(404 :: nat) \<noteq> 200" by simp
  have digits: "string_of_nat 404 = ''404''" by code_simp
  have decoded: "map (\<lambda>b. char_of (unat b)) [0x6E, 0x6F, 0x74, 0x20, 0x66, 0x6F, 0x75, 0x6E, 0x64 :: byte]
              = ''not found''"
    by code_simp
  show ?thesis
    using VirtualPrinter_print_error_status [OF status, of "map (\<lambda>b. char_of (unat b))"
          "\<lambda>s. if s = ''1'' then Some (1 :: int) else None"]
      digits decoded
    by simp
qed

lemma writeFileSync_outcome:
  "writeFileSync fs cwd p c
   = (if fs_at fs (path_resolve cwd p) = Some Directory then Inl (LibError ''EISDIR'')
      else case fs_at fs (''/'' @ join_segments (butlast (path_segments (path_resolve cwd p)))) of
             None \<Rightarrow> Inl (LibError ''ENOENT'')
           | Some (File x) \<Rightarrow> Inl (LibError ''ENOTDIR'')
           | Some Directory \<Rightarrow> Inr (fs(path_resolve cwd p \<mapsto> File c)))"
  by (simp add: writeFileSync_def Let_def)

text \<open>
  C5, as the code has it. Success is the status 200 and no other. For such a response
  with body \<open>B\<close> the file to write lies directly under the save directory and is named
  \<open>label_\<close>, the clock's ISO string with \<open>:\<close> and \<open>.\<close> replaced by \<open>-\<close>, a dot and
  the extension (pdf and json for these output formats, png for any other). When the save
  directory is a directory and no directory has that name, \<open>print\<close> writes the file,
  holding the text of \<open>B\<close> for json and the bytes of \<open>B\<close> otherwise, and resolves with
  \<open>parseInt\<close> of the \<open>x-total-count\<close> header (of \<open>'1'\<close> when the header is missing or
  empty), the output format, the number of bytes, the file name, the joined path and the
  time of saving. Otherwise the write throws, \<open>print\<close> fails with \<open>Failed to save file\<close>
  and nothing is written.
\<close>

theorem VirtualPrinter_print_success:
  assumes "isAbsolute cwd" and "iso8601 now"
  shows "(let ext = (if outputFormat vp = ''pdf'' then ''pdf''
                    else if outputFormat vp = ''json'' then ''json'' else ''png'');
              name = ''label_''
                     @ map (\<lambda>c. if c = CHR '':'' \<or> c = CHR ''.'' then CHR ''-'' else c) now
                     @ ''.'' @ ext;
              path = path_join (saveDirectory vp) name;
              target = path_resolve cwd path;
              content = (if outputFormat vp = ''json'' then Text (utf8 body) else Bytes body);
              count = (case map_of headers ''x-total-count'' of
                         None \<Rightarrow> parseInt ''1''
                       | Some h \<Rightarrow> if h = [] then parseInt ''1'' else parseInt h)
          in ext \<in> {''png'', ''pdf'', ''json''}
           \<and> path_segments target = path_segments (path_resolve cwd (saveDirectory vp)) @ [name]
           \<and> path_inside cwd (saveDirectory vp) path
           \<and> (if fs_at fs (path_resolve cwd (saveDirectory vp)) = Some Directory
                  \<and> fs_at fs target \<noteq> Some Directory
               then VirtualPrinter_print utf8 parseInt vp cwd fs (Response 200 headers body) now later
                    = (Resolved \<lparr>success = True,
                                 message = ''Label processed and saved successfully'',
                                 labelCount = count,
                                 result_outputFormat = outputFormat vp,
                                 dataSize = length body,
                                 filename = name,
                                 filepath = path,
                                 savedAt = later\<rparr>,
                       fs(target \<mapsto> File content))
               else (\<exists>why. VirtualPrinter_print utf8 parseInt vp cwd fs (Response 200 headers body)
                            now later
                          = (Rejected (Error (''Failed to save file: '' @ why)), fs))))"
proof -
  let ?name = "generateFilename vp now"
  let ?path = "path_join (saveDirectory vp) ?name"
  let ?target = "path_resolve cwd ?path"
  let ?content = "if outputFormat vp = ''json'' then Text (utf8 body) else Bytes body"
  let ?count = "case map_of headers ''x-total-count'' of
                  None \<Rightarrow> parseInt ''1''
                | Some h \<Rightarrow> if h = [] then parseInt ''1'' else parseInt h"
  let ?run = "VirtualPrinter_print utf8 parseInt vp cwd fs (Response 200 headers body) now later"
  have segs: "path_segments ?target = path_segments (path_resolve cwd (saveDirectory vp)) @ [?name]"
    using assms by (rule join_target)
  have inside: "path_inside cwd (saveDirectory vp) ?path"
    using segs by (simp add: path_inside_def)
  note parent = join_parent [OF assms, of "saveDirectory vp" vp]
  have count: "parseInt (or_default (map_of headers ''x-total-count'') ''1'') = ?count"
    by (simp add: or_default_def split: option.splits)
  have run: "?run = (case writeFileSync fs cwd ?path ?content of
                       Inl saveError \<Rightarrow>
                         (Rejected (Error (''Failed to save file: '' @ error_message saveError)), fs)
                     | Inr fs' \<Rightarrow>
                         (Resolved \<lparr>success = True,
                                    message = ''Label processed and saved successfully'',
                                    labelCount = parseInt (or_default
                                      (map_of headers ''x-total-count'') ''1''),
                                    result_outputFormat = outputFormat vp,
                                    dataSize = length body, filename = ?name, filepath = ?path,
                                    savedAt = later\<rparr>, fs'))"
    by (simp add: VirtualPrinter_print_def Let_def)
  have attempt: "writeFileSync fs cwd ?path ?content
        = (if fs_at fs ?target = Some Directory then Inl (LibError ''EISDIR'')
           else case fs_at fs (path_resolve cwd (saveDirectory vp)) of
                  None \<Rightarrow> Inl (LibError ''ENOENT'')
                | Some (File x) \<Rightarrow> Inl (LibError ''ENOTDIR'')
                | Some Directory \<Rightarrow> Inr (fs(?target \<mapsto> File ?content)))"
    using parent by (simp add: writeFileSync_outcome)
  have outcome: "if fs_at fs (path_resolve cwd (saveDirectory vp)) = Some Directory
                    \<and> fs_at fs ?target \<noteq> Some Directory
                 then ?run = (Resolved \<lparr>success = True,
                                 message = ''Label processed and saved successfully'',
                                 labelCount = ?count, result_outputFormat = outputFormat vp,
                                 dataSize = length body, filename = ?name, filepath = ?path,
                                 savedAt = later\<rparr>,
                              fs(?target \<mapsto> File ?content))
                 else (\<exists>why. ?run = (Rejected (Error (''Failed to save file: '' @ why)), fs))"
  proof (cases "fs_at fs (path_resolve cwd (saveDirectory vp)) = Some Directory
                \<and> fs_at fs ?target \<noteq> Some Directory")
    case True
    then have "writeFileSync fs cwd ?path ?content = Inr (fs(?target \<mapsto> File ?content))"
      by (simp add: attempt)
    then show ?thesis using True run count by simp
  next
    case False
    have "\<exists>e. writeFileSync fs cwd ?path ?content = Inl e"
    proof (cases "fs_at fs ?target = Some Directory")
      case True
      then show ?thesis by (simp add: attempt)
    next
      case free: False
      then have "fs_at fs (path_resolve cwd (saveDirectory vp)) \<noteq> Some Directory"
        using False by simp
      then show ?thesis
        using free
        by (cases "fs_at fs (path_resolve cwd (saveDirectory vp))")
           (simp_all add: attempt split: fs_node.splits)
    qed
    then obtain e where "writeFileSync fs cwd ?path ?content = Inl e" ..
    then have "?run = (Rejected (Error (''Failed to save file: '' @ error_message e)), fs)"
      using run by simp
    then show ?thesis using False by auto
  qed
  have name: "?name = ''label_''
                @ map (\<lambda>c. if c = CHR '':'' \<or> c = CHR ''.'' then CHR ''-'' else c) now
                @ ''.'' @ (if outputFormat vp = ''pdf'' then ''pdf''
                           else if outputFormat vp = ''json'' then ''json'' else ''png'')"
    by (simp add: generateFilename_def Let_def)
  have ext: "(if outputFormat vp = ''pdf'' then ''pdf''
              else if outputFormat vp = ''json'' then ''json'' else ''png'')
             \<in> {''png'', ''pdf'', ''json''}"
    by simp
  show ?thesis
    unfolding Let_def name [symmetric]
    using ext segs inside outcome by (intro conjI)
qed

theorem VirtualPrinter_print_success_witness:
  "VirtualPrinter_print (map (\<lambda>b. char_of (unat b)))
     (\<lambda>s. if s = ''1'' then Some (1 :: int) else if s = ''2'' then Some 2 else None)
     \<lparr>baseUrl = ''http://api.labelary.com/v1/printers'', dpmm = ''8dpmm'', labelWidth = ''4'',
      labelHeight = ''6'', labelIndex = ''0'', outputFormat = ''png'',
      saveDirectory = ''./generated_labels''\<rparr>
     ''/app'' [''/app/generated_labels'' \<mapsto> Directory]
     (Response 200 [(''x-total-count'', ''2'')] [0x89, 0x50, 0x4E, 0x47])
     ''2025-07-24T10:30:00.000Z'' ''2025-07-24T10:30:00.005Z''
   = (Resolved \<lparr>success = True, message = ''Label processed and saved successfully'',
                labelCount = Some 2, result_outputFormat = ''png'', dataSize = 4,
                filename = ''label_2025-07-24T10-30-00-000Z.png'',
                filepath = ''generated_labels/label_2025-07-24T10-30-00-000Z.png'',
                savedAt = ''2025-07-24T10:30:00.005Z''\<rparr>,
      [''/app/generated_labels'' \<mapsto> Directory,
       ''/app/generated_labels/label_2025-07-24T10-30-00-000Z.png''
         \<mapsto> File (Bytes [0x89, 0x50, 0x4E, 0x47])])
   \<and> path_inside ''/app'' ''./generated_labels''
        ''generated_labels/label_2025-07-24T10-30-00-000Z.png''
   \<and> VirtualPrinter_print (map (\<lambda>b. char_of (unat b)))
     (\<lambda>s. if s = ''1'' then Some (1 :: int) else if s = ''2'' then Some 2 else None)
     \<lparr>baseUrl = ''http://api.labelary.com/v1/printers'', dpmm = ''8dpmm'', labelWidth = ''4'',
      labelHeight = ''6'', labelIndex = ''0'', outputFormat = ''json'',
      saveDirectory = ''./generated_labels''\<rparr>
     ''/app'' [''/app/generated_labels'' \<mapsto> Directory]
     (Response 200 [] [0x7B, 0x7D])
     ''2025-07-24T10:30:00.000Z'' ''2025-07-24T10:30:00.005Z''
   = (Resolved \<lparr>success = True, message = ''Label processed and saved successfully'',
                labelCount = Some 1, result_outputFormat = ''json'', dataSize = 2,
                filename = ''label_2025-07-24T10-30-00-000Z.json'',
                filepath = ''generated_labels/label_2025-07-24T10-30-00-000Z.json'',
                savedAt = ''2025-07-24T10:30:00.005Z''\<rparr>,
      [''/app/generated_labels'' \<mapsto> Directory,
       ''/app/generated_labels/label_2025-07-24T10-30-00-000Z.json'' \<mapsto> File (Text ''{}'')])"
proof -
  let ?png = "\<lparr>baseUrl = ''http://api.labelary.com/v1/printers'', dpmm = ''8dpmm'',
      labelWidth = ''4'', labelHeight = ''6'', labelIndex = ''0'', outputFormat = ''png'',
      saveDirectory = ''./generated_labels''\<rparr>"
  let ?json = "\<lparr>baseUrl = ''http://api.labelary.com/v1/printers'', dpmm = ''8dpmm'',
      labelWidth = ''4'', labelHeight = ''6'', labelIndex = ''0'', outputFormat = ''json'',
      saveDirectory = ''./generated_labels''\<rparr>"
  let ?count = "\<lambda>s. if s = ''1'' then Some (1 :: int) else if s = ''2'' then Some 2 else None"
  have cwd: "isAbsolute ''/app''"
    by (simp add: isAbsolute_def)
  have now: "iso8601 ''2025-07-24T10:30:00.000Z''"
    by code_simp
  have png: "path_join ''./generated_labels'' ''label_2025-07-24T10-30-00-000Z.png''
             = ''generated_labels/label_2025-07-24T10-30-00-000Z.png''"
    by (simp add: path_join_def path_normalize_def isAbsolute_def)
  have json: "path_join ''./generated_labels'' ''label_2025-07-24T10-30-00-000Z.json''
              = ''generated_labels/label_2025-07-24T10-30-00-000Z.json''"
    by (simp add: path_join_def path_normalize_def isAbsolute_def)
  have targets:
    "path_resolve ''/app'' ''generated_labels/label_2025-07-24T10-30-00-000Z.png''
       = ''/app/generated_labels/label_2025-07-24T10-30-00-000Z.png''"
    "path_resolve ''/app'' ''generated_labels/label_2025-07-24T10-30-00-000Z.json''
       = ''/app/generated_labels/label_2025-07-24T10-30-00-000Z.json''"
    "path_resolve ''/app'' ''./generated_labels'' = ''/app/generated_labels''"
    by (simp_all add: path_resolve_def isAbsolute_def)
  have decoded: "map (\<lambda>b. char_of (unat b)) [0x7B, 0x7D :: byte] = ''{}''"
    by code_simp
  show ?thesis
    using VirtualPrinter_print_success [OF cwd now, of ?png "map (\<lambda>b. char_of (unat b))"
        "[0x89, 0x50, 0x4E, 0x47]" ?count "[(''x-total-count'', ''2'')]"
        "[''/app/generated_labels'' \<mapsto> Directory]" "''2025-07-24T10:30:00.005Z''"]
      VirtualPrinter_print_success [OF cwd now, of ?json "map (\<lambda>b. char_of (unat b))"
        "[0x7B, 0x7D]" ?count "[]"
        "[''/app/generated_labels'' \<mapsto> Directory]" "''2025-07-24T10:30:00.005Z''"]
      decoded
    by (simp add: png json targets fs_at_def Let_def)
qed

text \<open>
  The claim as stated fails at two inputs. A response with status 201 is a successful
  HTTP response, but \<open>print\<close> rejects it and writes nothing. And where a regular file
  has the name of the save directory, the constructor finds that the path exists and
  completes, but the write of a response with status 200 throws: \<open>print\<close> fails with
  a message that starts \<open>Failed to save file: ENOTDIR\<close>, and nothing is written.
\<close>

theorem VirtualPrinter_print_not_every_success:
  "(200 :: nat) \<le> 201 \<and> (201 :: nat) < 300
   \<and> VirtualPrinter_print (map (\<lambda>b. char_of (unat b)))
     (\<lambda>s. if s = ''1'' then Some (1 :: int) else None)
     \<lparr>baseUrl = ''http://api.labelary.com/v1/printers'', dpmm = ''8dpmm'', labelWidth = ''100'',
      labelHeight = ''150'', labelIndex = ''0'', outputFormat = ''png'',
      saveDirectory = ''./generated_labels''\<rparr>
     ''/app'' [''/app/generated_labels'' \<mapsto> Directory]
     (Response 201 [] [0x25, 0x50, 0x44, 0x46])
     ''2025-07-24T10:30:00.000Z'' ''2025-07-24T10:30:00.005Z''
   = (Rejected (Error ''Labelary API error (201): %PDF''), [''/app/generated_labels'' \<mapsto> Directory])
   \<and> new_VirtualPrinter None ''/app'' [''/app/generated_labels'' \<mapsto> File (Text ''notes'')]
   = (Inr \<lparr>baseUrl = ''http://api.labelary.com/v1/printers'', dpmm = ''8dpmm'',
           labelWidth = ''100'', labelHeight = ''150'', labelIndex = ''0'', outputFormat = ''png'',
           saveDirectory = ''./generated_labels''\<rparr>,
      [''/app/generated_labels'' \<mapsto> File (Text ''notes'')])
   \<and> (let run = VirtualPrinter_print (map (\<lambda>b. char_of (unat b)))
           (\<lambda>s. if s = ''1'' then Some (1 :: int) else None)
           \<lparr>baseUrl = ''http://api.labelary.com/v1/printers'', dpmm = ''8dpmm'',
            labelWidth = ''100'', labelHeight = ''150'', labelIndex = ''0'', outputFormat = ''png'',
            saveDirectory = ''./generated_labels''\<rparr>
           ''/app'' [''/app/generated_labels'' \<mapsto> File (Text ''notes'')]
           (Response 200 [] [0x89, 0x50, 0x4E, 0x47])
           ''2025-07-24T10:30:00.000Z'' ''2025-07-24T10:30:00.005Z''
       in snd run = [''/app/generated_labels'' \<mapsto> File (Text ''notes'')]
        \<and> (case fst run of
              Rejected e \<Rightarrow> prefix ''Failed to save file: ENOTDIR'' (error_message e)
            | Resolved r \<Rightarrow> False
            | Pending \<Rightarrow> False))"
proof -
  have digits: "string_of_nat 201 = ''201''"
    by code_simp
  have decoded: "map (\<lambda>b. char_of (unat b)) [0x25, 0x50, 0x44, 0x46 :: byte] = ''%PDF''"
    by code_simp
  have joined: "path_join ''./generated_labels'' ''label_2025-07-24T10-30-00-000Z.png''
                = ''generated_labels/label_2025-07-24T10-30-00-000Z.png''"
    by (simp add: path_join_def path_normalize_def isAbsolute_def)
  have targets:
    "path_resolve ''/app'' ''generated_labels/label_2025-07-24T10-30-00-000Z.png''
       = ''/app/generated_labels/label_2025-07-24T10-30-00-000Z.png''"
    "path_resolve ''/app'' ''./generated_labels'' = ''/app/generated_labels''"
    by (simp_all add: path_resolve_def isAbsolute_def)
  have segs: "path_segments ''/app/generated_labels/label_2025-07-24T10-30-00-000Z.png''
              = [''app'', ''generated_labels'', ''label_2025-07-24T10-30-00-000Z.png'']"
    by (simp add: path_segments_def)
  show ?thesis
    using digits decoded
    by (simp add: VirtualPrinter_print_def joined targets segs generateFilename_def
        or_default_def writeFileSync_def fs_at_def error_message_def
        new_VirtualPrinter_def VirtualPrinter_fields_def no_options_def
        ensureDirectoryExists_def existsSync_def Let_def)
qed

section \<open>Properties of PrinterFactory\<close>

text \<open>
  C6. The type is compared in lower case. A tcp configuration with a host and a port
  gives a TCP printer for them, and without one of them the missing-field error; a usb
  configuration gives a USB printer; a virtual configuration gives a virtual printer with
  the configured fields once its constructor has found or made the save directory; any
  other type gives the error that names it.
\<close>

theorem createPrinter_kinds:
  "(toLowerCase (cfg_type c) = ''tcp'' \<and> cfg_host c = Some h \<and> h \<noteq> [] \<and> cfg_port c = Some n \<and> n \<noteq> 0
      \<longrightarrow> createPrinter c cwd fs = (Inr (TCP \<lparr>host = h, port = n\<rparr>), fs))
   \<and> (toLowerCase (cfg_type c) = ''tcp''
        \<and> (cfg_host c = None \<or> cfg_host c = Some [] \<or> cfg_port c = None \<or> cfg_port c = Some 0)
      \<longrightarrow> createPrinter c cwd fs
            = (Inl (Error ''TCP printer requires host and port configuration''), fs))
   \<and> (toLowerCase (cfg_type c) = ''usb''
      \<longrightarrow> createPrinter c cwd fs
            = (Inr (USB (new_USBPrinter (cfg_vendorId c) (cfg_productId c))), fs))
   \<and> (toLowerCase (cfg_type c) = ''virtual''
        \<and> fst (ensureDirectoryExists (VirtualPrinter_fields (cfg_virtual c)) cwd fs) = None
      \<longrightarrow> fst (createPrinter c cwd fs) = Inr (Virtual (VirtualPrinter_fields (cfg_virtual c))))
   \<and> (toLowerCase (cfg_type c) \<noteq> ''tcp'' \<and> toLowerCase (cfg_type c) \<noteq> ''usb''
        \<and> toLowerCase (cfg_type c) \<noteq> ''virtual''
      \<longrightarrow> createPrinter c cwd fs
            = (Inl (Error (''Unsupported printer type: '' @ cfg_type c
                           @ ''. Supported types: tcp, usb, virtual'')), fs))"
proof -
  have tcp_ok: "toLowerCase (cfg_type c) = ''tcp'' \<and> cfg_host c = Some h \<and> h \<noteq> []
          \<and> cfg_port c = Some n \<and> n \<noteq> 0
        \<longrightarrow> createPrinter c cwd fs = (Inr (TCP \<lparr>host = h, port = n\<rparr>), fs)"
    by (simp add: createPrinter_def)
  have tcp_missing: "toLowerCase (cfg_type c) = ''tcp''
          \<and> (cfg_host c = None \<or> cfg_host c = Some [] \<or> cfg_port c = None \<or> cfg_port c = Some 0)
        \<longrightarrow> createPrinter c cwd fs
              = (Inl (Error ''TCP printer requires host and port configuration''), fs)"
    by (auto simp: createPrinter_def split: option.splits)
  have usb: "toLowerCase (cfg_type c) = ''usb''
        \<longrightarrow> createPrinter c cwd fs
              = (Inr (USB (new_USBPrinter (cfg_vendorId c) (cfg_productId c))), fs)"
    by (simp add: createPrinter_def)
  have virtual: "toLowerCase (cfg_type c) = ''virtual''
          \<and> fst (ensureDirectoryExists (VirtualPrinter_fields (cfg_virtual c)) cwd fs) = None
        \<longrightarrow> fst (createPrinter c cwd fs) = Inr (Virtual (VirtualPrinter_fields (cfg_virtual c)))"
    by (cases "ensureDirectoryExists (VirtualPrinter_fields (cfg_virtual c)) cwd fs")
       (simp add: createPrinter_def new_VirtualPrinter_def)
  have unknown: "toLowerCase (cfg_type c) \<noteq> ''tcp'' \<and> toLowerCase (cfg_type c) \<noteq> ''usb''
          \<and> toLowerCase (cfg_type c) \<noteq> ''virtual''
        \<longrightarrow> createPrinter c cwd fs
              = (Inl (Error (''Unsupported printer type: '' @ cfg_type c
                             @ ''. Supported types: tcp, usb, virtual'')), fs)"
    by (simp add: createPrinter_def)
  from tcp_ok tcp_missing usb virtual unknown show ?thesis by blast
qed

theorem createPrinter_kinds_witness:
  "createPrinter \<lparr>cfg_type = ''TCP'', cfg_host = Some ''192.168.1.100'', cfg_port = Some 9100,
                   cfg_vendorId = Some 0x0a5f, cfg_productId = None, cfg_virtual = None\<rparr>
     ''/app'' Map.empty
     = (Inr (TCP \<lparr>host = ''192.168.1.100'', port = 9100\<rparr>), Map.empty)
   \<and> createPrinter \<lparr>cfg_type = ''tcp'', cfg_host = None, cfg_port = Some 9100,
                     cfg_vendorId = Some 0x0a5f, cfg_productId = None, cfg_virtual = None\<rparr>
     ''/app'' Map.empty
     = (Inl (Error ''TCP printer requires host and port configuration''), Map.empty)
   \<and> createPrinter \<lparr>cfg_type = ''usb'', cfg_host = None, cfg_port = Some 9100,
                     cfg_vendorId = Some 0x0a5f, cfg_productId = None, cfg_virtual = None\<rparr>
     ''/app'' Map.empty
     = (Inr (USB \<lparr>vendorId = 0x0a5f, productId = None, device = None, endpoint = None\<rparr>),
        Map.empty)
   \<and> fst (createPrinter \<lparr>cfg_type = ''virtual'', cfg_host = None, cfg_port = Some 9100,
                     cfg_vendorId = Some 0x0a5f, cfg_productId = None, cfg_virtual = None\<rparr>
     ''/app'' [''/app/generated_labels'' \<mapsto> Directory])
     = Inr (Virtual \<lparr>baseUrl = ''http://api.labelary.com/v1/printers'', dpmm = ''8dpmm'',
                      labelWidth = ''100'', labelHeight = ''150'', labelIndex = ''0'',
                      outputFormat = ''png'', saveDirectory = ''./generated_labels''\<rparr>)
   \<and> createPrinter \<lparr>cfg_type = ''bluetooth'', cfg_host = None, cfg_port = Some 9100,
                     cfg_vendorId = Some 0x0a5f, cfg_productId = None, cfg_virtual = None\<rparr>
     ''/app'' Map.empty
     = (Inl (Error ''Unsupported printer type: bluetooth. Supported types: tcp, usb, virtual''),
        Map.empty)"
proof -
  have lower: "toLowerCase ''TCP'' = ''tcp''" "toLowerCase ''tcp'' = ''tcp''"
    "toLowerCase ''usb'' = ''usb''" "toLowerCase ''virtual'' = ''virtual''"
    "toLowerCase ''bluetooth'' = ''bluetooth''"
    by code_simp+
  have fields: "VirtualPrinter_fields None
      = \<lparr>baseUrl = ''http://api.labelary.com/v1/printers'', dpmm = ''8dpmm'',
         labelWidth = ''100'', labelHeight = ''150'', labelIndex = ''0'',
         outputFormat = ''png'', saveDirectory = ''./generated_labels''\<rparr>"
    by (simp add: VirtualPrinter_fields_def no_options_def or_default_def)
  have ensured: "fst (ensureDirectoryExists (VirtualPrinter_fields None) ''/app''
                   [''/app/generated_labels'' \<mapsto> Directory]) = None"
    unfolding fields
    by (simp add: ensureDirectoryExists_def existsSync_def fs_at_def path_resolve_def
        isAbsolute_def Let_def)
  show ?thesis
    using createPrinter_kinds [of "\<lparr>cfg_type = ''TCP'', cfg_host = Some ''192.168.1.100'',
                   cfg_port = Some 9100, cfg_vendorId = Some 0x0a5f, cfg_productId = None,
                   cfg_virtual = None\<rparr>" "''192.168.1.100''" 9100 "''/app''" Map.empty]
      createPrinter_kinds [of "\<lparr>cfg_type = ''tcp'', cfg_host = None, cfg_port = Some 9100,
                     cfg_vendorId = Some 0x0a5f, cfg_productId = None, cfg_virtual = None\<rparr>"
                   "[]" 0 "''/app''" Map.empty]
      createPrinter_kinds [of "\<lparr>cfg_type = ''usb'', cfg_host = None, cfg_port = Some 9100,
                     cfg_vendorId = Some 0x0a5f, cfg_productId = None, cfg_virtual = None\<rparr>"
                   "[]" 0 "''/app''" Map.empty]
      createPrinter_kinds [of "\<lparr>cfg_type = ''virtual'', cfg_host = None, cfg_port = Some 9100,
                     cfg_vendorId = Some 0x0a5f, cfg_productId = None, cfg_virtual = None\<rparr>"
                   "[]" 0 "''/app''" "[''/app/generated_labels'' \<mapsto> Directory]"]
      createPrinter_kinds [of "\<lparr>cfg_type = ''bluetooth'', cfg_host = None, cfg_port = Some 9100,
                     cfg_vendorId = Some 0x0a5f, cfg_productId = None, cfg_virtual = None\<rparr>"
                   "[]" 0 "''/app''" Map.empty]
      lower ensured fields
    by (simp add: new_USBPrinter_def)
qed

section \<open>Properties of the handlers for saved labels\<close>

text \<open>
  What the guard of \<open>GET /labels/:filename\<close> does decide: a name whose resolved path
  does not start, as a string, with the resolved save directory is refused before any
  call of the file system.
\<close>

lemma get_label_guard:
  assumes "cfg_type config = ''virtual''" and "config_saveDirectory config = Some dir"
    and "\<not> prefix (path_resolve cwd dir) (path_resolve cwd (path_join dir name))"
  shows "get_label config cwd fs name = (JsonError 403 ''Access denied: Invalid file path'', [])"
  using assms by (simp add: get_label_def Let_def)

text \<open>
  \<open>deleteSavedLabel\<close> removes whatever file the joined path resolves to, wherever that
  is.
\<close>

lemma deleteSavedLabel_any_path:
  assumes "fs_at fs (path_resolve cwd (path_join (saveDirectory vp) name)) = Some (File c)"
  shows "deleteSavedLabel vp cwd fs name
         = (Inr True, fs(path_resolve cwd (path_join (saveDirectory vp) name) := None))"
  using assms by (simp add: deleteSavedLabel_def existsSync_def unlinkSync_def Let_def)

text \<open>
  C2 at the failing input: the save directory is \<open>./generated_labels\<close> of \<open>/app\<close>,
  and the name asked for is \<open>../generated_labels_old/secret.png\<close>. The resolved path
  \<open>/app/generated_labels_old/secret.png\<close> is outside the save directory, but as a
  string it starts with \<open>/app/generated_labels\<close>, so the guard lets it pass and the
  handler looks the file up and streams it.
\<close>

theorem get_label_sibling_directory:
  "get_label
     \<lparr>cfg_type = ''virtual'', cfg_host = None, cfg_port = Some 9100, cfg_vendorId = Some 0x0a5f,
      cfg_productId = None,
      cfg_virtual = Some (no_options\<lparr>opt_saveDirectory := Some ''./generated_labels''\<rparr>)\<rparr>
     ''/app''
     [''/app/generated_labels'' \<mapsto> Directory, ''/app/generated_labels_old'' \<mapsto> Directory,
      ''/app/generated_labels_old/secret.png'' \<mapsto> File (Bytes [0x89])]
     ''../generated_labels_old/secret.png''
   = (FileStream ''image/png'' ''/app/generated_labels_old/secret.png'',
      [CallExistsSync ''/app/generated_labels_old/secret.png'',
       CallCreateReadStream ''/app/generated_labels_old/secret.png''])
   \<and> \<not> path_inside ''/app'' ''./generated_labels''
         (path_join ''./generated_labels'' ''../generated_labels_old/secret.png'')"
  by (simp add: get_label_def config_saveDirectory_def no_options_def path_join_def
      path_normalize_def path_resolve_def isAbsolute_def existsSync_def fs_at_def
      path_extname_def path_segments_def toLowerCase_def toLowerCase_char_def path_inside_def
      Let_def)

text \<open>
  C10. \<open>deleteSavedLabel\<close> has no containment check. With the save directory
  \<open>./generated_labels\<close> of \<open>/app\<close>, the name \<open>../../etc/passwd\<close> has \<open>..\<close>
  segments and resolves to \<open>/etc/passwd\<close>, outside the save directory;
  \<open>deleteSavedLabel\<close> and the \<open>DELETE\<close> handler remove that file, while the
  \<open>GET\<close> handler refuses the same name with status 403.
\<close>

theorem deleteSavedLabel_outside_save_directory:
  "''..'' \<in> set (split_path ''../../etc/passwd'')
   \<and> path_resolve ''/app'' (path_join ''./generated_labels'' ''../../etc/passwd'') = ''/etc/passwd''
   \<and> \<not> path_inside ''/app'' ''./generated_labels''
         (path_join ''./generated_labels'' ''../../etc/passwd'')
   \<and> deleteSavedLabel (VirtualPrinter_fields None) ''/app''
        [''/app/generated_labels'' \<mapsto> Directory, ''/etc/passwd'' \<mapsto> File (Text ''root:x:0:0'')]
        ''../../etc/passwd''
      = (Inr True,
         [''/app/generated_labels'' \<mapsto> Directory, ''/etc/passwd'' \<mapsto> File (Text ''root:x:0:0'')]
           (''/etc/passwd'' := None))
   \<and> delete_label
        \<lparr>cfg_type = ''virtual'', cfg_host = None, cfg_port = Some 9100, cfg_vendorId = Some 0x0a5f,
         cfg_productId = None, cfg_virtual = None\<rparr> ''/app''
        [''/app/generated_labels'' \<mapsto> Directory, ''/etc/passwd'' \<mapsto> File (Text ''root:x:0:0'')]
        ''../../etc/passwd''
      = (JsonSuccess ''Label ../../etc/passwd deleted successfully'',
         [''/app/generated_labels'' \<mapsto> Directory, ''/etc/passwd'' \<mapsto> File (Text ''root:x:0:0'')]
           (''/etc/passwd'' := None))
   \<and> get_label
        \<lparr>cfg_type = ''virtual'', cfg_host = None, cfg_port = Some 9100, cfg_vendorId = Some 0x0a5f,
         cfg_productId = None,
         cfg_virtual = Some (no_options\<lparr>opt_saveDirectory := Some ''./generated_labels''\<rparr>)\<rparr> ''/app''
        [''/app/generated_labels'' \<mapsto> Directory, ''/etc/passwd'' \<mapsto> File (Text ''root:x:0:0'')]
        ''../../etc/passwd''
      = (JsonError 403 ''Access denied: Invalid file path'', [])"
proof -
  have lower: "toLowerCase ''virtual'' = ''virtual''"
    by code_simp
  have fields: "VirtualPrinter_fields None
      = \<lparr>baseUrl = ''http://api.labelary.com/v1/printers'', dpmm = ''8dpmm'',
         labelWidth = ''100'', labelHeight = ''150'', labelIndex = ''0'',
         outputFormat = ''png'', saveDirectory = ''./generated_labels''\<rparr>"
    by (simp add: VirtualPrinter_fields_def no_options_def or_default_def)
  have joined: "path_join ''./generated_labels'' ''../../etc/passwd'' = ''../etc/passwd''"
    by (simp add: path_join_def path_normalize_def isAbsolute_def)
  have target: "path_resolve ''/app'' ''../etc/passwd'' = ''/etc/passwd''"
    by (simp add: path_resolve_def isAbsolute_def)
  have dir: "path_resolve ''/app'' ''./generated_labels'' = ''/app/generated_labels''"
    by (simp add: path_resolve_def isAbsolute_def)
  show ?thesis
    unfolding fields
    by (simp add: joined target dir lower deleteSavedLabel_def delete_label_def createPrinter_def
        new_VirtualPrinter_def fields ensureDirectoryExists_def existsSync_def unlinkSync_def
        fs_at_def get_label_def config_saveDirectory_def no_options_def path_inside_def
        path_segments_def error_message_def Let_def)
qed

end
